theory Spec2Isabelle
  imports Complex_Main "HOL-Library.Multiset" "HOL-Library.Sublist" "HOL-Library.AList"
begin

section \<open>Strings and regular expressions of the standard library\<close>

text \<open>
  Text is a list of characters, each a code point below 256 (Latin-1). The character
  classes are those of \<open>str\<close> and of \<open>re\<close> on such text. \<open>\d\<close> is a decimal digit, of which
  there are ten below 256. \<open>\s\<close> is \<open>str.isspace\<close>: the ASCII whitespace, the four
  separators 0x1C to 0x1F, NEL (0x85) and the no-break space (0xA0). \<open>\w\<close> is \<open>str.isalnum\<close>
  or the underscore: beyond ASCII the letters 0xAA, 0xB5, 0xBA, 0xC0 to 0xD6, 0xD8 to
  0xF6 and 0xF8 to 0xFF, and the numeric characters 0xB2, 0xB3, 0xB9 and 0xBC to 0xBE.
\<close>

definition is_digit :: "char \<Rightarrow> bool" where
  "is_digit c \<longleftrightarrow> c \<in> set ''0123456789''"

definition ascii_lowercase :: string where
  "ascii_lowercase = ''abcdefghijklmnopqrstuvwxyz''"

definition ascii_uppercase :: string where
  "ascii_uppercase = ''ABCDEFGHIJKLMNOPQRSTUVWXYZ''"

definition is_alpha :: "char \<Rightarrow> bool" where
  "is_alpha c \<longleftrightarrow> c \<in> set ascii_lowercase \<or> c \<in> set ascii_uppercase"

definition latin1_alnum :: "char \<Rightarrow> bool" where
  "latin1_alnum c \<longleftrightarrow>
     (let n = (of_char c :: int)
      in n \<in> set [0xAA, 0xB2, 0xB3, 0xB5, 0xB9, 0xBA, 0xBC, 0xBD, 0xBE] \<or>
         (0xC0 \<le> n \<and> n \<le> 0xD6) \<or> (0xD8 \<le> n \<and> n \<le> 0xF6) \<or> 0xF8 \<le> n)"

definition is_word :: "char \<Rightarrow> bool" where
  "is_word c \<longleftrightarrow>
     (if is_alpha c \<or> is_digit c \<or> c = CHR ''_'' then True else latin1_alnum c)"

definition is_space :: "char \<Rightarrow> bool" where
  "is_space c \<longleftrightarrow> c \<in> set [CHR '' '', CHR 0x09, CHR 0x0A, CHR 0x0B, CHR 0x0C, CHR 0x0D,
     CHR 0x1C, CHR 0x1D, CHR 0x1E, CHR 0x1F, CHR 0x85, CHR 0xA0]"

text \<open>
  \<open>str.lower\<close> and \<open>str.strip\<close> with no argument. Below 256 the upper-case letters are
  the ASCII ones and 0xC0 to 0xDE without the multiplication sign 0xD7; the lower-case
  form of each is 32 further on. \<open>upper_char\<close> serves \<open>str.title\<close>, which the source
  applies to the event keywords only, ASCII words.
\<close>

definition lower_char :: "char \<Rightarrow> char" where
  "lower_char c =
     (case map_of (zip ascii_uppercase ascii_lowercase) c of
        Some l \<Rightarrow> l
      | None \<Rightarrow>
          (let n = (of_char c :: int)
           in if 0xC0 \<le> n \<and> n \<le> 0xDE \<and> n \<noteq> 0xD7 then char_of (n + 32) else c))"

definition upper_char :: "char \<Rightarrow> char" where
  "upper_char c = (case map_of (zip ascii_lowercase ascii_uppercase) c of Some u \<Rightarrow> u | None \<Rightarrow> c)"

definition lower :: "string \<Rightarrow> string" where
  "lower s = map lower_char s"

definition strip :: "string \<Rightarrow> string" where
  "strip s = rev (dropWhile is_space (rev (dropWhile is_space s)))"

text \<open>\<open>sub in s\<close> for strings: \<open>sub\<close> occurs in \<open>s\<close> as a run of characters.\<close>

fun py_in :: "string \<Rightarrow> string \<Rightarrow> bool" where
  "py_in sub [] \<longleftrightarrow> sub = []"
| "py_in sub (c # cs) \<longleftrightarrow> prefix sub (c # cs) \<or> py_in sub cs"

text \<open>
  \<open>s.split(sep)\<close>: the pieces between the occurrences of \<open>sep\<close>, found left to right
  without overlap. The source splits at non-empty separators only (Python raises
  ValueError for an empty one; here nothing is split).
\<close>

function py_split_from :: "string \<Rightarrow> string \<Rightarrow> string \<Rightarrow> string list" where
  "py_split_from sep cur [] = [cur]"
| "py_split_from sep cur (c # cs) =
     (if sep \<noteq> [] \<and> prefix sep (c # cs)
      then cur # py_split_from sep [] (drop (length sep - 1) cs)
      else py_split_from sep (cur @ [c]) cs)"
  by pat_completeness auto
termination
  by (relation "measure (\<lambda>(sep, cur, s). length s)") auto

definition py_split :: "string \<Rightarrow> string \<Rightarrow> string list" where
  "py_split s sep = py_split_from sep [] s"

text \<open>\<open>s.split()\<close>: the maximal runs of characters that are not whitespace.\<close>

fun split_ws_from :: "string \<Rightarrow> string \<Rightarrow> string list" where
  "split_ws_from cur [] = (if cur = [] then [] else [cur])"
| "split_ws_from cur (c # cs) =
     (if is_space c then (if cur = [] then [] else [cur]) @ split_ws_from [] cs
      else split_ws_from (cur @ [c]) cs)"

definition py_split_ws :: "string \<Rightarrow> string list" where
  "py_split_ws s = split_ws_from [] s"

text \<open>\<open>str.title\<close>: a letter after a letter is lowered, any other letter is raised.\<close>

fun title_from :: "bool \<Rightarrow> string \<Rightarrow> string" where
  "title_from prev_cased [] = []"
| "title_from prev_cased (c # cs) =
     (if is_alpha c then (if prev_cased then lower_char c else upper_char c) # title_from True cs
      else c # title_from False cs)"

definition title :: "string \<Rightarrow> string" where
  "title s = title_from False s"

text \<open>\<open>s[lo:hi]\<close>, with negative indices counted from the end and both clamped.\<close>

definition py_slice :: "string \<Rightarrow> int \<Rightarrow> int \<Rightarrow> string" where
  "py_slice s lo hi =
     (let n = int (length s);
          clamp = (\<lambda>i. if i < 0 then max 0 (i + n) else min i n);
          a = clamp lo; b = clamp hi
      in take (nat (b - a)) (drop (nat a) s))"

text \<open>
  The constructs the patterns of the source use: a character class, a literal, \<open>\b\<close>,
  sequence, alternation, the greedy \<open>?\<close>, a greedy repetition \<open>{lo,hi}\<close> of a character
  class (\<open>*\<close> is \<open>{0,}\<close> and \<open>+\<close> is \<open>{1,}\<close>; the source repeats character classes only)
  and the capturing group (no pattern has more than one).
\<close>

datatype regex =
    Eps
  | Chr "char \<Rightarrow> bool"
  | Lit string
  | WordB
  | Seq regex regex
  | Alt regex regex
  | Opt regex
  | Rep nat "nat option" "char \<Rightarrow> bool"
  | Grp regex

text \<open>
  A state of the matcher is the position reached and the span of the group, if it has
  matched. \<open>rmatch\<close> lists the states in which the pattern can end from a state, in the
  order the backtracking matcher of \<open>re\<close> tries them: the first alternative first, the
  longest repetition first. With \<open>re.IGNORECASE\<close> a literal matches whatever its case
  (the literals of the source are ASCII, and no other character below 256 folds to an
  ASCII letter); the classes the source uses under that flag do not tell cases apart.
\<close>

type_synonym mstate = "nat \<times> (nat \<times> nat) option"

definition word_boundary :: "string \<Rightarrow> nat \<Rightarrow> bool" where
  "word_boundary s i \<longleftrightarrow>
     (0 < i \<and> is_word (s ! (i - 1))) \<noteq> (i < length s \<and> is_word (s ! i))"

definition lit_eq :: "bool \<Rightarrow> string \<Rightarrow> string \<Rightarrow> bool" where
  "lit_eq ignorecase l t \<longleftrightarrow> (if ignorecase then lower l = lower t else l = t)"

fun rmatch :: "bool \<Rightarrow> string \<Rightarrow> regex \<Rightarrow> mstate \<Rightarrow> mstate list" where
  "rmatch ic s Eps st = [st]"
| "rmatch ic s (Chr P) (i, g) = (if i < length s \<and> P (s ! i) then [(Suc i, g)] else [])"
| "rmatch ic s (Lit l) (i, g) =
     (if lit_eq ic l (take (length l) (drop i s)) then [(i + length l, g)] else [])"
| "rmatch ic s WordB (i, g) = (if word_boundary s i then [(i, g)] else [])"
| "rmatch ic s (Seq a b) st = concat (map (rmatch ic s b) (rmatch ic s a st))"
| "rmatch ic s (Alt a b) st = rmatch ic s a st @ rmatch ic s b st"
| "rmatch ic s (Opt a) st = rmatch ic s a st @ [st]"
| "rmatch ic s (Rep lo hi P) (i, g) =
     (let run = length (takeWhile P (drop i s));
          n = (case hi of None \<Rightarrow> run | Some h \<Rightarrow> min h run)
      in if n < lo then [] else map (\<lambda>k. (i + k, g)) (rev [lo..<Suc n]))"
| "rmatch ic s (Grp a) (i, g) = map (\<lambda>(j, _). (j, Some (i, j))) (rmatch ic s a (i, g))"

text \<open>
  \<open>re.finditer\<close>: the matches from left to right without overlap, each as start, end and
  group span. At a position the match is the first state of \<open>rmatch\<close>; with none the scan
  moves one character on. After a match the scan goes on at its end (one character further
  after an empty match, which no pattern of the source has).
\<close>

function finditer_from :: "bool \<Rightarrow> regex \<Rightarrow> string \<Rightarrow> nat \<Rightarrow> (nat \<times> nat \<times> (nat \<times> nat) option) list" where
  "finditer_from ic r s pos =
     (if length s < pos then []
      else case rmatch ic s r (pos, None) of
             [] \<Rightarrow> finditer_from ic r s (Suc pos)
           | (e, g) # _ \<Rightarrow> (pos, e, g) # finditer_from ic r s (if pos < e then e else Suc pos))"
  by pat_completeness auto
termination
  by (relation "measure (\<lambda>(ic, r, s, pos). Suc (length s) - pos)") auto

definition finditer :: "bool \<Rightarrow> regex \<Rightarrow> string \<Rightarrow> (nat \<times> nat \<times> (nat \<times> nat) option) list" where
  "finditer ic r s = finditer_from ic r s 0"

text \<open>A sequence of patterns, and an alternation of literals.\<close>

definition seqs :: "regex list \<Rightarrow> regex" where
  "seqs rs = foldr Seq rs Eps"

fun alts :: "string list \<Rightarrow> regex" where
  "alts [] = Eps"
| "alts [l] = Lit l"
| "alts (l # ls) = Alt (Lit l) (alts ls)"

section \<open>NERService: the entity dictionaries and the merger\<close>

text \<open>
  The exceptions the two services can let escape. \<open>ExternalError\<close> stands for whatever
  a model handle (spaCy, the Hugging Face pipeline) raises.
\<close>

datatype error = RuntimeError string | KeyError string | TypeError string | ExternalError string

text \<open>
  An entity dictionary of \<open>ner_service.py\<close>. Both producers set \<open>text\<close>, \<open>label\<close>,
  \<open>start\<close>, \<open>end\<close> and \<open>source\<close>; only the Hugging Face one sets \<open>confidence\<close> and only
  the spaCy one sets \<open>description\<close> (whose value may be Python's None), so these two
  keys are optional: \<open>None\<close> is the absent key.
\<close>

record ner_entity =
  ne_text :: string
  ne_label :: string
  ne_start :: int
  ne_end :: int
  ne_confidence :: "rat option"
  ne_description :: "string option option"
  ne_source :: string

text \<open>\<open>NERService._spans_overlap\<close>\<close>

definition spans_overlap :: "int \<times> int \<Rightarrow> int \<times> int \<Rightarrow> bool" where
  "spans_overlap span1 span2 \<longleftrightarrow> fst span1 < snd span2 \<and> fst span2 < snd span1"

definition ne_span :: "ner_entity \<Rightarrow> int \<times> int" where
  "ne_span entity = (ne_start entity, ne_end entity)"

text \<open>
  The loop of \<open>NERService._merge_entities\<close> over the sorted list; the state is the pair
  of the list \<open>merged\<close> and the set \<open>seen_spans\<close>.
\<close>

fun merge_loop ::
  "ner_entity list \<Rightarrow> ner_entity list \<times> (int \<times> int) set \<Rightarrow> ner_entity list \<times> (int \<times> int) set"
where
  "merge_loop [] st = st"
| "merge_loop (entity # rest) (merged, seen_spans) =
     (let span = ne_span entity;
          overlapping = (\<exists>seen_span \<in> seen_spans. spans_overlap span seen_span)
      in if \<not> overlapping then merge_loop rest (merged @ [entity], insert span seen_spans)
         else merge_loop rest (merged, seen_spans))"

text \<open>
  \<open>NERService._merge_entities\<close>. Python's \<open>list.sort(key=...)\<close> is a stable sort, as is
  \<open>sort_key\<close>.
\<close>

definition merge_entities :: "ner_entity list \<Rightarrow> ner_entity list \<Rightarrow> ner_entity list" where
  "merge_entities spacy_entities hf_entities =
     (let all_entities = spacy_entities @ hf_entities;
          all_entities = sort_key ne_start all_entities
      in fst (merge_loop all_entities ([], {})))"

text \<open>
  The merger as the specification words it: walk the candidates, keeping the list of the
  entities accepted so far, and accept a candidate iff its span overlaps the span of no
  accepted entity, where the spans \<open>[a0,a1)\<close> and \<open>[b0,b1)\<close> overlap iff \<open>a0 < b1\<close> and
  \<open>b0 < a1\<close>. The rule is written out here from the specification, not taken from
  \<open>_spans_overlap\<close>.
\<close>

fun greedy_accept :: "ner_entity list \<Rightarrow> ner_entity list \<Rightarrow> ner_entity list" where
  "greedy_accept accepted [] = accepted"
| "greedy_accept accepted (c # cs) =
     (if \<exists>a \<in> set accepted. ne_start c < ne_end a \<and> ne_start a < ne_end c
      then greedy_accept accepted cs
      else greedy_accept (accepted @ [c]) cs)"

text \<open>No two spans of a list overlap (at different positions of the list).\<close>

definition non_overlapping :: "(int \<times> int) list \<Rightarrow> bool" where
  "non_overlapping spans = sorted_wrt (\<lambda>a b. \<not> spans_overlap a b) spans"

text \<open>
  The two entities of the specification's tie-break example, and an entity that starts
  where the first of them ends.
\<close>

definition ex_org :: ner_entity where
  "ex_org = \<lparr>ne_text = ''Acme'', ne_label = ''ORG'', ne_start = 9, ne_end = 13,
     ne_confidence = None, ne_description = Some None, ne_source = ''spacy''\<rparr>"

definition ex_date :: ner_entity where
  "ex_date = \<lparr>ne_text = ''yesterday'', ne_label = ''DATE'', ne_start = 0, ne_end = 9,
     ne_confidence = None, ne_description = Some None, ne_source = ''spacy''\<rparr>"

definition ex_person :: ner_entity where
  "ex_person = \<lparr>ne_text = ''yeste'', ne_label = ''PERSON'', ne_start = 0, ne_end = 5,
     ne_confidence = None, ne_description = Some None, ne_source = ''spacy''\<rparr>"


text \<open>
  What "sorts stably by ascending start position" says of a list \<open>s\<close> and the list \<open>xs\<close>
  it sorts: the same entities, ascending start positions, and the entities of each start
  position in the order \<open>xs\<close> has them.
\<close>

definition stable_sort_of :: "ner_entity list \<Rightarrow> ner_entity list \<Rightarrow> bool" where
  "stable_sort_of xs s \<longleftrightarrow>
     mset s = mset xs \<and> sorted (map ne_start s) \<and>
     (\<forall>k \<in> set (map ne_start xs).
        filter (\<lambda>e. ne_start e = k) s = filter (\<lambda>e. ne_start e = k) xs)"

text \<open>Every element of a list, twice in a row.\<close>

definition twice :: "'a list \<Rightarrow> 'a list" where
  "twice xs = concat (map (\<lambda>x. [x, x]) xs)"

section \<open>Dates and times of the standard library\<close>

text \<open>
  A naive \<open>datetime\<close>, held as its proleptic Gregorian ordinal (\<open>date.toordinal()\<close>, day 1
  is 0001-01-01, a Monday) and the microseconds since midnight. Year, month and day are
  read off the ordinal with the standard library's own conversion.
\<close>

record datetime =
  dt_ordinal :: int
  dt_micro :: int

definition MAXYEAR :: int where
  "MAXYEAR = 9999"

definition MAXORDINAL :: int where
  "MAXORDINAL = 3652059"

definition is_leap :: "int \<Rightarrow> bool" where
  "is_leap year \<longleftrightarrow> year mod 4 = 0 \<and> (year mod 100 \<noteq> 0 \<or> year mod 400 = 0)"

definition days_before_year :: "int \<Rightarrow> int" where
  "days_before_year year = (let y = year - 1 in y * 365 + y div 4 - y div 100 + y div 400)"

definition DAYS_IN_MONTH :: "int list" where
  "DAYS_IN_MONTH = [-1, 31, 28, 31, 30, 31, 30, 31, 31, 30, 31, 30, 31]"

definition DAYS_BEFORE_MONTH :: "int list" where
  "DAYS_BEFORE_MONTH = [-1, 0, 31, 59, 90, 120, 151, 181, 212, 243, 273, 304, 334]"

definition days_in_month :: "int \<Rightarrow> int \<Rightarrow> int" where
  "days_in_month year month =
     (if month = 2 \<and> is_leap year then 29 else DAYS_IN_MONTH ! nat month)"

definition days_before_month :: "int \<Rightarrow> int \<Rightarrow> int" where
  "days_before_month year month =
     DAYS_BEFORE_MONTH ! nat month + (if month > 2 \<and> is_leap year then 1 else 0)"

definition ymd2ord :: "int \<Rightarrow> int \<Rightarrow> int \<Rightarrow> int" where
  "ymd2ord year month day = days_before_year year + days_before_month year month + day"

definition ord2ymd :: "int \<Rightarrow> int \<times> int \<times> int" where
  "ord2ymd ordinal =
     (let n = ordinal - 1;
          n400 = n div 146097; n = n mod 146097;
          year = n400 * 400 + 1;
          n100 = n div 36524; n = n mod 36524;
          n4 = n div 1461; n = n mod 1461;
          n1 = n div 365; n = n mod 365;
          year = year + n100 * 100 + n4 * 4 + n1
      in if n1 = 4 \<or> n100 = 4 then (year - 1, 12, 31)
         else
           let leapyear = (n1 = 3 \<and> (n4 \<noteq> 24 \<or> n100 = 3));
               month = (n + 50) div 32;
               preceding = DAYS_BEFORE_MONTH ! nat month + (if month > 2 \<and> leapyear then 1 else 0)
           in if preceding > n
              then let month = month - 1;
                       preceding = preceding -
                         (DAYS_IN_MONTH ! nat month + (if month = 2 \<and> leapyear then 1 else 0))
                   in (year, month, n - preceding + 1)
              else (year, month, n - preceding + 1))"

text \<open>\<open>date.weekday()\<close>: Monday is 0.\<close>

definition weekday :: "datetime \<Rightarrow> int" where
  "weekday dt = (dt_ordinal dt + 6) mod 7"

text \<open>
  \<open>dt + timedelta(days=n)\<close>; \<open>None\<close> is the OverflowError of a date outside years 1 to
  9999.
\<close>

definition add_days :: "datetime \<Rightarrow> int \<Rightarrow> datetime option" where
  "add_days dt n =
     (let ordinal = dt_ordinal dt + n
      in if 1 \<le> ordinal \<and> ordinal \<le> MAXORDINAL then Some (dt\<lparr>dt_ordinal := ordinal\<rparr>) else None)"

text \<open>
  \<open>dt + relativedelta(years=years, months=months)\<close> of dateutil, for the two uses of the
  source (\<open>months=1\<close> and \<open>years=1\<close>): the month rolls over into the next year, the day is
  cut to the length of the new month, and \<open>None\<close> is the ValueError of \<open>replace\<close> for a
  year beyond 9999.
\<close>

definition add_relativedelta :: "datetime \<Rightarrow> int \<Rightarrow> int \<Rightarrow> datetime option" where
  "add_relativedelta dt years months =
     (case ord2ymd (dt_ordinal dt) of (y, m, d) \<Rightarrow>
        let year = y + years;
            month = m + months;
            year = (if month > 12 then year + 1 else year);
            month = (if month > 12 then month - 12 else month);
            day = min (days_in_month year month) d
        in if year > MAXYEAR then None
           else Some (dt\<lparr>dt_ordinal := ymd2ord year month day\<rparr>))"

text \<open>\<open>datetime.isoformat()\<close>\<close>

fun zero_pad :: "nat \<Rightarrow> int \<Rightarrow> string" where
  "zero_pad 0 n = []"
| "zero_pad (Suc w) n = zero_pad w (n div 10) @ [''0123456789'' ! nat (n mod 10)]"

definition isoformat :: "datetime \<Rightarrow> string" where
  "isoformat dt =
     (case ord2ymd (dt_ordinal dt) of (y, m, d) \<Rightarrow>
        let us = dt_micro dt;
            hh = us div 3600000000; mm = (us div 60000000) mod 60;
            ss = (us div 1000000) mod 60; f = us mod 1000000
        in zero_pad 4 y @ ''-'' @ zero_pad 2 m @ ''-'' @ zero_pad 2 d @ ''T'' @
           zero_pad 2 hh @ '':'' @ zero_pad 2 mm @ '':'' @ zero_pad 2 ss @
           (if f \<noteq> 0 then ''.'' @ zero_pad 6 f else []))"


section \<open>EntityExtractionService: data\<close>

text \<open>
  The values a metadata dictionary of the service holds: booleans (\<open>validated\<close>) and
  strings (\<open>original\<close>, \<open>parsed_date\<close>, \<open>source\<close>).
\<close>

datatype mvalue = MBool bool | MStr string

text \<open>
  The dataclass \<open>ExtractedEntity\<close>; its fields carry the prefix \<open>ee_\<close>. Confidences are
  the decimal literals of the source, held as rationals: no arithmetic is done on them.
\<close>

record extracted_entity =
  ee_type :: string
  ee_value :: string
  ee_confidence :: rat
  ee_context :: string
  ee_start_pos :: int
  ee_end_pos :: int
  ee_metadata :: "(string \<times> mvalue) list option"

text \<open>The dataclass \<open>CalendarEvent\<close>; its fields carry the prefix \<open>ce_\<close>.\<close>

record calendar_event =
  ce_title :: string
  ce_description :: string
  ce_start_time :: "datetime option"
  ce_end_time :: "datetime option"
  ce_location :: "string option"
  ce_attendees :: "string list"
  ce_confidence :: rat
  ce_source_text :: string
  ce_entities :: "extracted_entity list"

text \<open>
  What \<open>phonenumbers\<close> does with a candidate: \<open>parse\<close> (or a later call) raises, the number
  parses but \<open>is_valid_number\<close> is false, or it is valid and \<open>format_number\<close> gives its
  national form.
\<close>

datatype phone_outcome = PhoneRaises | PhoneInvalid | PhoneValid string

text \<open>
  The libraries and the clock the service calls, as parameters: \<open>datetime.now()\<close> (one
  reading for a call), \<open>dateutil.parser.parse(_, fuzzy=True)\<close> and
  \<open>datetime.fromisoformat\<close> (\<open>None\<close> when they raise), \<open>validate_email\<close> (the normalised
  address, \<open>None\<close> for EmailNotValidError) and \<open>phonenumbers\<close>.
\<close>

record env =
  now :: datetime
  dateutil_parse :: "string \<Rightarrow> datetime option"
  fromisoformat :: "string \<Rightarrow> datetime option"
  validate_email :: "string \<Rightarrow> string option"
  phone_lib :: "string \<Rightarrow> phone_outcome"

section \<open>EntityExtractionService: patterns\<close>

definition am_pm :: regex where
  "am_pm = alts [''am'', ''pm'', ''AM'', ''PM'']"

definition weekdays :: "string list" where
  "weekdays = [''monday'', ''tuesday'', ''wednesday'', ''thursday'', ''friday'', ''saturday'',
     ''sunday'']"

definition months :: "string list" where
  "months = [''january'', ''february'', ''march'', ''april'', ''may'', ''june'', ''july'',
     ''august'', ''september'', ''october'', ''november'', ''december'']"

definition date_patterns :: "regex list" where
  "date_patterns =
    [seqs [WordB, alts weekdays, WordB],
     seqs [WordB, alts months, Rep 1 None is_space, Rep 1 (Some 2) is_digit,
           Opt (alts [''st'', ''nd'', ''rd'', ''th'']), WordB],
     seqs [WordB, Rep 1 (Some 2) is_digit, Lit ''/'', Rep 1 (Some 2) is_digit, Lit ''/'',
           Rep 2 (Some 4) is_digit, WordB],
     seqs [WordB, Rep 1 (Some 2) is_digit, Lit ''-'', Rep 1 (Some 2) is_digit, Lit ''-'',
           Rep 2 (Some 4) is_digit, WordB],
     seqs [WordB, Lit ''tomorrow'', WordB],
     seqs [WordB, Lit ''yesterday'', WordB],
     seqs [WordB, Lit ''next'', Rep 1 None is_space, alts [''week'', ''month'', ''year''], WordB],
     seqs [WordB, Lit ''in'', Rep 1 None is_space, Rep 1 None is_digit, Rep 1 None is_space,
           Alt (Seq (Lit ''day'') (Opt (Lit ''s'')))
             (Alt (Seq (Lit ''week'') (Opt (Lit ''s''))) (Seq (Lit ''month'') (Opt (Lit ''s'')))),
           WordB]]"

definition time_patterns :: "regex list" where
  "time_patterns =
    [seqs [WordB, Rep 1 (Some 2) is_digit, Lit '':'', Rep 2 (Some 2) is_digit, Rep 0 None is_space,
           Opt am_pm, WordB],
     seqs [WordB, Rep 1 (Some 2) is_digit, Rep 0 None is_space, am_pm, WordB],
     seqs [WordB, Lit ''at'', Rep 1 None is_space, Rep 1 (Some 2) is_digit,
           Opt (Seq (Lit '':'') (Rep 2 (Some 2) is_digit)), Rep 0 None is_space, Opt am_pm, WordB],
     seqs [WordB, alts [''morning'', ''afternoon'', ''evening'', ''night''], WordB],
     seqs [WordB, Lit ''noon'', WordB],
     seqs [WordB, Lit ''midnight'', WordB]]"

definition event_keywords :: "string list" where
  "event_keywords =
    [''meeting'', ''appointment'', ''call'', ''conference'', ''lunch'', ''dinner'',
     ''presentation'', ''interview'', ''workshop'', ''seminar'', ''training'',
     ''deadline'', ''due'', ''reminder'', ''event'', ''party'', ''celebration'',
     ''birthday'', ''anniversary'', ''vacation'', ''trip'', ''flight'', ''travel'']"

text \<open>The character classes of the email, URL and action patterns.\<close>

definition email_local_char :: "char \<Rightarrow> bool" where
  "email_local_char c \<longleftrightarrow> is_alpha c \<or> is_digit c \<or> c \<in> set ''._%+-''"

definition email_domain_char :: "char \<Rightarrow> bool" where
  "email_domain_char c \<longleftrightarrow> is_alpha c \<or> is_digit c \<or> c \<in> set ''.-''"

definition email_tld_char :: "char \<Rightarrow> bool" where
  "email_tld_char c \<longleftrightarrow> is_alpha c \<or> c = CHR ''|''"

definition email_pattern :: regex where
  "email_pattern =
     seqs [WordB, Rep 1 None email_local_char, Lit ''@'', Rep 1 None email_domain_char, Lit ''.'',
           Rep 2 None email_tld_char, WordB]"

definition phone_patterns :: "regex list" where
  "phone_patterns =
    [seqs [WordB, Rep 3 (Some 3) is_digit, Lit ''-'', Rep 3 (Some 3) is_digit, Lit ''-'',
           Rep 4 (Some 4) is_digit, WordB],
     seqs [WordB, Lit ''('', Rep 3 (Some 3) is_digit, Lit '')'', Rep 0 None is_space,
           Rep 3 (Some 3) is_digit, Lit ''-'', Rep 4 (Some 4) is_digit, WordB],
     seqs [WordB, Rep 3 (Some 3) is_digit, Lit ''.'', Rep 3 (Some 3) is_digit, Lit ''.'',
           Rep 4 (Some 4) is_digit, WordB],
     seqs [WordB, Rep 10 (Some 10) is_digit, WordB],
     seqs [WordB, Lit ''+1'', Rep 0 None is_space, Rep 3 (Some 3) is_digit, Rep 0 None is_space,
           Rep 3 (Some 3) is_digit, Rep 0 None is_space, Rep 4 (Some 4) is_digit, WordB]]"

definition url_char :: "char \<Rightarrow> bool" where
  "url_char c \<longleftrightarrow> \<not> is_space c \<and>
     c \<notin> set [CHR ''<'', CHR ''>'', CHR 0x22, CHR ''{'', CHR ''}'', CHR ''|'', CHR 0x5C, CHR ''^'',
       CHR 0x60, CHR ''['', CHR '']'']"

definition url_pattern :: regex where
  "url_pattern =
     Alt (seqs [Lit ''http'', Opt (Lit ''s''), Lit ''://'', Rep 1 None url_char])
         (seqs [Lit ''www.'', Rep 1 None url_char])"

definition action_tail_char :: "char \<Rightarrow> bool" where
  "action_tail_char c \<longleftrightarrow> c \<notin> set ''.!?''"

definition action_patterns :: "regex list" where
  "action_patterns =
    [seqs [WordB, alts [''need to'', ''should'', ''must'', ''have to'', ''remember to'',
             ''don'' @ [CHR 0x27] @ ''t forget to''],
           Rep 1 None is_space, Grp (Rep 1 None action_tail_char)],
     seqs [WordB, alts [''todo'', ''to do'', ''task'', ''action item''], Lit '':'',
           Rep 0 None is_space, Grp (Rep 1 None action_tail_char)],
     seqs [WordB, alts [''follow up'', ''reach out'', ''contact'', ''call'', ''email''],
           Rep 1 None is_space, Grp (Rep 1 None action_tail_char)],
     seqs [WordB, alts [''schedule'', ''book'', ''set up'', ''arrange''],
           Rep 1 None is_space, Grp (Rep 1 None action_tail_char)],
     seqs [WordB, alts [''review'', ''check'', ''verify'', ''confirm''],
           Rep 1 None is_space, Grp (Rep 1 None action_tail_char)]]"


section \<open>EntityExtractionService: recognizers\<close>

text \<open>\<open>match.group()\<close> and the context window \<open>text[max(0, start - r) : end + r]\<close>.\<close>

definition group0 :: "string \<Rightarrow> nat \<times> nat \<times> (nat \<times> nat) option \<Rightarrow> string" where
  "group0 text m = (case m of (s, e, g) \<Rightarrow> py_slice text (int s) (int e))"

definition context_window :: "string \<Rightarrow> int \<Rightarrow> int \<Rightarrow> int \<Rightarrow> string" where
  "context_window text r s e = py_slice text (max 0 (s - r)) (e + r)"

text \<open>\<open>_extract_emails\<close>\<close>

definition extract_emails :: "env \<Rightarrow> string \<Rightarrow> extracted_entity list" where
  "extract_emails env text =
     map (\<lambda>m. case m of (s, e, g) \<Rightarrow>
            let email = group0 text m
            in case validate_email env email of
                 Some normalized \<Rightarrow>
                   \<lparr>ee_type = ''EMAIL'', ee_value = normalized, ee_confidence = 9 / 10,
                    ee_context = context_window text 30 (int s) (int e),
                    ee_start_pos = int s, ee_end_pos = int e,
                    ee_metadata = Some [(''validated'', MBool True)]\<rparr>
               | None \<Rightarrow>
                   \<lparr>ee_type = ''EMAIL'', ee_value = email, ee_confidence = 5 / 10,
                    ee_context = context_window text 30 (int s) (int e),
                    ee_start_pos = int s, ee_end_pos = int e,
                    ee_metadata = Some [(''validated'', MBool False)]\<rparr>)
         (finditer False email_pattern text)"

text \<open>
  \<open>_extract_phone_numbers\<close>: a number that parses and is not valid adds nothing; the bare
  \<open>except\<close> turns a raising library call into the unvalidated entity.
\<close>

definition extract_phone_numbers :: "env \<Rightarrow> string \<Rightarrow> extracted_entity list" where
  "extract_phone_numbers env text =
     concat (map (\<lambda>pattern.
       concat (map (\<lambda>m. case m of (s, e, g) \<Rightarrow>
            let phone = group0 text m
            in case phone_lib env phone of
                 PhoneValid formatted \<Rightarrow>
                   [\<lparr>ee_type = ''PHONE'', ee_value = formatted, ee_confidence = 9 / 10,
                     ee_context = context_window text 30 (int s) (int e),
                     ee_start_pos = int s, ee_end_pos = int e,
                     ee_metadata = Some [(''validated'', MBool True), (''original'', MStr phone)]\<rparr>]
               | PhoneInvalid \<Rightarrow> []
               | PhoneRaises \<Rightarrow>
                   [\<lparr>ee_type = ''PHONE'', ee_value = phone, ee_confidence = 6 / 10,
                     ee_context = context_window text 30 (int s) (int e),
                     ee_start_pos = int s, ee_end_pos = int e,
                     ee_metadata = Some [(''validated'', MBool False)]\<rparr>])
         (finditer False pattern text))) phone_patterns)"

text \<open>\<open>_extract_urls\<close>\<close>

definition extract_urls :: "string \<Rightarrow> extracted_entity list" where
  "extract_urls text =
     map (\<lambda>m. case m of (s, e, g) \<Rightarrow>
            \<lparr>ee_type = ''URL'', ee_value = group0 text m, ee_confidence = 8 / 10,
             ee_context = context_window text 30 (int s) (int e),
             ee_start_pos = int s, ee_end_pos = int e, ee_metadata = None\<rparr>)
         (finditer False url_pattern text)"

text \<open>
  \<open>_parse_date\<close>. The loop over \<open>enumerate(weekdays)\<close> returns at the first name found in
  the lowered text; \<open>None\<close> from it is the loop falling through. Every exception inside
  (the OverflowError of the date arithmetic, whatever dateutil raises) ends in the bare
  \<open>except\<close> and gives \<open>None\<close>.
\<close>

fun weekday_loop :: "datetime \<Rightarrow> string \<Rightarrow> (int \<times> string) list \<Rightarrow> datetime option option" where
  "weekday_loop today t [] = None"
| "weekday_loop today t ((i, day) # rest) =
     (if py_in day t
      then let days_ahead = i - weekday today;
               days_ahead = (if days_ahead \<le> 0 then days_ahead + 7 else days_ahead)
           in Some (add_days today days_ahead)
      else weekday_loop today t rest)"

definition enumerate_weekdays :: "(int \<times> string) list" where
  "enumerate_weekdays = zip [0, 1, 2, 3, 4, 5, 6] weekdays"

definition parse_date :: "env \<Rightarrow> string \<Rightarrow> datetime option" where
  "parse_date env date_text =
     (let today = now env
      in if py_in ''tomorrow'' (lower date_text) then add_days today 1
         else if py_in ''yesterday'' (lower date_text) then add_days today (- 1)
         else if py_in ''next week'' (lower date_text) then add_days today 7
         else if py_in ''next month'' (lower date_text) then add_relativedelta today 0 1
         else if py_in ''next year'' (lower date_text) then add_relativedelta today 1 0
         else case weekday_loop today (lower date_text) enumerate_weekdays of
                Some r \<Rightarrow> r
              | None \<Rightarrow> dateutil_parse env date_text)"

text \<open>\<open>_extract_dates\<close>: a match whose text does not parse adds nothing.\<close>

definition extract_dates :: "env \<Rightarrow> string \<Rightarrow> extracted_entity list" where
  "extract_dates env text =
     concat (map (\<lambda>pattern.
       concat (map (\<lambda>m. case m of (s, e, g) \<Rightarrow>
            let date_text = group0 text m
            in case parse_date env date_text of
                 Some parsed_date \<Rightarrow>
                   [\<lparr>ee_type = ''DATE'', ee_value = date_text, ee_confidence = 8 / 10,
                     ee_context = context_window text 30 (int s) (int e),
                     ee_start_pos = int s, ee_end_pos = int e,
                     ee_metadata = Some [(''parsed_date'', MStr (isoformat parsed_date))]\<rparr>]
               | None \<Rightarrow> [])
         (finditer True pattern text))) date_patterns)"

text \<open>\<open>_extract_times\<close>\<close>

definition extract_times :: "string \<Rightarrow> extracted_entity list" where
  "extract_times text =
     concat (map (\<lambda>pattern.
       map (\<lambda>m. case m of (s, e, g) \<Rightarrow>
            \<lparr>ee_type = ''TIME'', ee_value = group0 text m, ee_confidence = 7 / 10,
             ee_context = context_window text 30 (int s) (int e),
             ee_start_pos = int s, ee_end_pos = int e, ee_metadata = None\<rparr>)
         (finditer True pattern text)) time_patterns)"

text \<open>
  \<open>_count_entities\<close>: the dictionary is an association list in insertion order;
  \<open>counts.get(t, 0)\<close> is the lookup with default 0.
\<close>

definition count_step :: "(string \<times> nat) list \<Rightarrow> string \<Rightarrow> (string \<times> nat) list" where
  "count_step counts t =
     AList.update t ((case map_of counts t of None \<Rightarrow> 0 | Some c \<Rightarrow> c) + 1) counts"

definition count_entities :: "extracted_entity list \<Rightarrow> (string \<times> nat) list" where
  "count_entities entities = foldl (\<lambda>counts entity. count_step counts (ee_type entity)) [] entities"

section \<open>EntityExtractionService: calendar events\<close>

text \<open>\<open>_extract_event_title\<close>: the loop over the keywords returns at the first one found.\<close>

fun extract_event_title_from :: "string list \<Rightarrow> string \<Rightarrow> string" where
  "extract_event_title_from [] sentence = strip (take 50 sentence)"
| "extract_event_title_from (keyword # rest) sentence =
     (if py_in keyword (lower sentence)
      then let parts = py_split (lower sentence) keyword
           in if length parts > 1
              then title keyword @ '' '' @ take 50 (strip (parts ! 1))
              else title keyword
      else extract_event_title_from rest sentence)"

definition extract_event_title :: "string \<Rightarrow> string" where
  "extract_event_title sentence = extract_event_title_from event_keywords sentence"

text \<open>
  \<open>_combine_date_time\<close>. A \<open>parsed_date\<close> that is not a string makes
  \<open>fromisoformat\<close> raise, which the \<open>except\<close> swallows, as it does a string that is not
  an ISO date.
\<close>

definition combine_date_time ::
  "env \<Rightarrow> extracted_entity list \<Rightarrow> extracted_entity list \<Rightarrow> datetime option" where
  "combine_date_time env date_entities time_entities =
     (case date_entities of
        [] \<Rightarrow> None
      | date_entity # _ \<Rightarrow>
          let parsed_date =
                (case ee_metadata date_entity of
                   None \<Rightarrow> None
                 | Some md \<Rightarrow>
                     (case map_of md ''parsed_date'' of
                        Some (MStr date_string) \<Rightarrow> fromisoformat env date_string
                      | _ \<Rightarrow> None));
              parsed_date =
                (case parsed_date of None \<Rightarrow> parse_date env (ee_value date_entity) | Some d \<Rightarrow> Some d)
          in case parsed_date of
               None \<Rightarrow> None
             | Some parsed \<Rightarrow>
                 (case time_entities of
                    [] \<Rightarrow> Some parsed
                  | time_entity # _ \<Rightarrow>
                      (case dateutil_parse env (ee_value time_entity) of
                         Some t \<Rightarrow> Some \<lparr>dt_ordinal = dt_ordinal parsed, dt_micro = dt_micro t\<rparr>
                       | None \<Rightarrow> Some parsed)))"

text \<open>The entities the loop of \<open>_extract_calendar_events\<close> selects for a sentence.\<close>

definition sentence_entities :: "extracted_entity list \<Rightarrow> string \<Rightarrow> extracted_entity list" where
  "sentence_entities entities sentence =
     filter (\<lambda>e. py_in (ee_context e) sentence \<or> py_in sentence (ee_context e)) entities"

definition has_event_keyword :: "string \<Rightarrow> bool" where
  "has_event_keyword sentence = list_ex (\<lambda>keyword. py_in keyword (lower sentence)) event_keywords"

text \<open>
  The body of the loop of \<open>_extract_calendar_events\<close> for one stripped, non-empty
  sentence: the event it appends, if any.
\<close>

definition sentence_event ::
  "env \<Rightarrow> extracted_entity list \<Rightarrow> string \<Rightarrow> calendar_event option" where
  "sentence_event env entities sentence =
     (let sent_entities = sentence_entities entities sentence;
          date_entities = filter (\<lambda>e. ee_type e = ''DATE'') sent_entities;
          time_entities = filter (\<lambda>e. ee_type e = ''TIME'') sent_entities;
          person_entities = filter (\<lambda>e. ee_type e \<in> set [''PERSON'', ''ORG'']) sent_entities;
          location_entities = filter (\<lambda>e. ee_type e \<in> set [''GPE'', ''LOC'', ''FAC'']) sent_entities
      in if has_event_keyword sentence \<and> (date_entities \<noteq> [] \<or> time_entities \<noteq> [])
         then Some \<lparr>ce_title = extract_event_title sentence,
                    ce_description = sentence,
                    ce_start_time = combine_date_time env date_entities time_entities,
                    ce_end_time = None,
                    ce_location = (case location_entities of [] \<Rightarrow> None | l # _ \<Rightarrow> Some (ee_value l)),
                    ce_attendees = map ee_value person_entities,
                    ce_confidence =
                      (if has_event_keyword sentence \<and> date_entities \<noteq> [] \<and> time_entities \<noteq> []
                       then 7 / 10 else 5 / 10),
                    ce_source_text = sentence,
                    ce_entities = sent_entities\<rparr>
         else None)"

text \<open>The sentences the loop works on: the pieces between full stops, stripped, non-empty.\<close>

definition sentences :: "string \<Rightarrow> string list" where
  "sentences text = filter (\<lambda>sentence. sentence \<noteq> []) (map strip (py_split text ''.''))"

text \<open>\<open>_extract_calendar_events\<close>\<close>

definition extract_calendar_events ::
  "env \<Rightarrow> string \<Rightarrow> extracted_entity list \<Rightarrow> calendar_event list" where
  "extract_calendar_events env text entities =
     List.map_filter (sentence_event env entities) (sentences text)"


section \<open>EntityExtractionService: the orchestrator and the action items\<close>

text \<open>
  The values of the dictionary \<open>NERService.extract_entities\<close> returns, and that
  dictionary, in insertion order.
\<close>

datatype ner_value = NEntities "ner_entity list" | NCounts "(string \<times> nat) list" | NInt int

type_synonym ner_results = "(string \<times> ner_value) list"

text \<open>
  The result dictionary of the orchestrator. For blank text it has the keys \<open>entities\<close>
  and \<open>calendar_events\<close> only; otherwise \<open>calendar_events\<close> is present iff
  \<open>include_calendar\<close>. An absent key is \<open>None\<close>.
\<close>

record extraction_result =
  res_entities :: "extracted_entity list"
  res_entity_counts :: "(string \<times> nat) list option"
  res_text_length :: "nat option"
  res_word_count :: "nat option"
  res_calendar_events :: "calendar_event list option"

text \<open>
  The loop over \<open>ner_results.get("entities", [])\<close>: an entity dictionary without the key
  \<open>confidence\<close> raises KeyError, a value that is not a list of entity dictionaries
  raises TypeError.
\<close>

definition ner_entry :: "string \<Rightarrow> ner_entity \<Rightarrow> error + extracted_entity" where
  "ner_entry text entity =
     (case ne_confidence entity of
        None \<Rightarrow> Inl (KeyError ''confidence'')
      | Some c \<Rightarrow>
          Inr \<lparr>ee_type = ne_label entity, ee_value = ne_text entity, ee_confidence = c,
               ee_context = context_window text 50 (ne_start entity) (ne_end entity),
               ee_start_pos = ne_start entity, ee_end_pos = ne_end entity,
               ee_metadata = Some [(''source'', MStr ''ner'')]\<rparr>)"

fun ner_entries :: "string \<Rightarrow> ner_entity list \<Rightarrow> error + extracted_entity list" where
  "ner_entries text [] = Inr []"
| "ner_entries text (entity # rest) =
     (case ner_entry text entity of
        Inl err \<Rightarrow> Inl err
      | Inr e \<Rightarrow> (case ner_entries text rest of Inl err \<Rightarrow> Inl err | Inr es \<Rightarrow> Inr (e # es)))"

definition get_entities :: "ner_results \<Rightarrow> ner_value" where
  "get_entities ner_results =
     (case map_of ner_results ''entities'' of None \<Rightarrow> NEntities [] | Some v \<Rightarrow> v)"

definition process_ner_results :: "string \<Rightarrow> ner_results \<Rightarrow> error + extracted_entity list" where
  "process_ner_results text ner_results =
     (case get_entities ner_results of
        NEntities es \<Rightarrow> ner_entries text es
      | NCounts [] \<Rightarrow> Inr []
      | NCounts (_ # _) \<Rightarrow> Inl (TypeError ''string indices must be integers'')
      | NInt _ \<Rightarrow> Inl (TypeError ''object is not iterable''))"

text \<open>
  \<open>EntityExtractionService.extract_entities\<close>; \<open>ner\<close> is \<open>self.ner_service.extract_entities\<close>,
  \<open>Inl\<close> the exception it raises.
\<close>

definition extract_entities ::
  "env \<Rightarrow> (string \<Rightarrow> error + ner_results) \<Rightarrow> string \<Rightarrow> bool \<Rightarrow> error + extraction_result" where
  "extract_entities env ner text include_calendar =
     (if strip text = []
      then Inr \<lparr>res_entities = [], res_entity_counts = None, res_text_length = None,
                res_word_count = None, res_calendar_events = Some []\<rparr>
      else case ner text of
             Inl err \<Rightarrow> Inl err
           | Inr ner_results \<Rightarrow>
               (case process_ner_results text ner_results of
                  Inl err \<Rightarrow> Inl err
                | Inr ner_entities \<Rightarrow>
                    let entities = ner_entities @ extract_emails env text @
                          extract_phone_numbers env text @ extract_urls text @
                          extract_dates env text @ extract_times text
                    in Inr \<lparr>res_entities = entities,
                            res_entity_counts = Some (count_entities entities),
                            res_text_length = Some (length text),
                            res_word_count = Some (length (py_split_ws text)),
                            res_calendar_events =
                              (if include_calendar
                               then Some (extract_calendar_events env text entities)
                               else None)\<rparr>))"

text \<open>The dictionaries \<open>extract_action_items\<close> returns.\<close>

record action_item =
  ai_text :: string
  ai_full_context :: string
  ai_confidence :: rat
  ai_type :: string
  ai_extracted_at :: string

text \<open>
  \<open>extract_action_items\<close>: \<open>match.group(1)\<close> is the span of the one capturing group, which
  every match of these patterns sets.
\<close>

definition group1 :: "string \<Rightarrow> nat \<times> nat \<times> (nat \<times> nat) option \<Rightarrow> string" where
  "group1 text m =
     (case m of (s, e, g) \<Rightarrow> (case g of None \<Rightarrow> [] | Some (a, b) \<Rightarrow> py_slice text (int a) (int b)))"

definition extract_action_items :: "env \<Rightarrow> string \<Rightarrow> action_item list" where
  "extract_action_items env text =
     concat (map (\<lambda>pattern.
       concat (map (\<lambda>m.
            let action_text = strip (group1 text m)
            in if action_text \<noteq> []
               then [\<lparr>ai_text = action_text, ai_full_context = group0 text m,
                      ai_confidence = 8 / 10, ai_type = ''action_item'',
                      ai_extracted_at = isoformat (now env)\<rparr>]
               else [])
         (finditer True pattern text))) action_patterns)"


section \<open>NERService.extract_entities\<close>

text \<open>What the models give: a spaCy entity span, and a result of the Hugging Face pipeline,
  a dictionary any of whose keys may be absent (an entry of the result list may be None).\<close>

record spacy_ent =
  sp_text :: string
  sp_label :: string
  sp_start_char :: int
  sp_end_char :: int

record hf_raw =
  hf_score :: "rat option"
  hf_word :: "string option"
  hf_entity_group :: "string option"
  hf_start :: "int option"
  hf_end :: "int option"

text \<open>
  The service object: the two model handles (\<open>None\<close> before \<open>initialize\<close>), each a function
  that may raise, and spaCy's \<open>explain\<close>.
\<close>

record ner_service =
  spacy_nlp :: "(string \<Rightarrow> error + spacy_ent list) option"
  hf_ner :: "(string \<Rightarrow> error + hf_raw option list) option"
  explain :: "string \<Rightarrow> string option"

text \<open>\<open>_extract_spacy_entities\<close>\<close>

definition extract_spacy_entities :: "ner_service \<Rightarrow> string \<Rightarrow> error + ner_entity list" where
  "extract_spacy_entities svc text =
     (case spacy_nlp svc of
        None \<Rightarrow> Inl (RuntimeError ''spaCy model is not loaded'')
      | Some nlp \<Rightarrow>
          (case nlp text of
             Inl err \<Rightarrow> Inl err
           | Inr ents \<Rightarrow>
               Inr (map (\<lambda>ent. \<lparr>ne_text = sp_text ent, ne_label = sp_label ent,
                                 ne_start = sp_start_char ent, ne_end = sp_end_char ent,
                                 ne_confidence = None,
                                 ne_description = Some (explain svc (sp_label ent)),
                                 ne_source = ''spacy''\<rparr>) ents)))"

text \<open>\<open>_extract_hf_entities\<close>; \<open>entity.get(key, default)\<close> is the lookup with its default.\<close>

definition get_or :: "'a option \<Rightarrow> 'a \<Rightarrow> 'a" where
  "get_or v d = (case v of None \<Rightarrow> d | Some x \<Rightarrow> x)"

definition extract_hf_entities :: "ner_service \<Rightarrow> string \<Rightarrow> rat \<Rightarrow> error + ner_entity list" where
  "extract_hf_entities svc text threshold =
     (case hf_ner svc of
        None \<Rightarrow> Inl (RuntimeError ''Hugging Face NER pipeline is not loaded'')
      | Some pipe \<Rightarrow>
          (case pipe text of
             Inl err \<Rightarrow> Inl err
           | Inr results \<Rightarrow>
               Inr (concat (map (\<lambda>entity.
                      case entity of
                        None \<Rightarrow> []
                      | Some ent \<Rightarrow>
                          if get_or (hf_score ent) 0 \<ge> threshold
                          then [\<lparr>ne_text = get_or (hf_word ent) [],
                                 ne_label = get_or (hf_entity_group ent) [],
                                 ne_start = get_or (hf_start ent) 0,
                                 ne_end = get_or (hf_end ent) 0,
                                 ne_confidence = Some (get_or (hf_score ent) 0),
                                 ne_description = None,
                                 ne_source = ''huggingface''\<rparr>]
                          else []) results))))"

text \<open>\<open>NERService._count_entities\<close>\<close>

definition ner_count_entities :: "ner_entity list \<Rightarrow> (string \<times> nat) list" where
  "ner_count_entities entities = foldl (\<lambda>counts entity. count_step counts (ne_label entity)) [] entities"

text \<open>
  \<open>NERService.extract_entities\<close>. The dictionary is created with its five keys and three
  of them are then assigned again; \<open>AList.update\<close> is the assignment to a key.
\<close>

definition ner_extract_entities ::
  "ner_service \<Rightarrow> string \<Rightarrow> bool \<Rightarrow> bool \<Rightarrow> rat \<Rightarrow> error + ner_results" where
  "ner_extract_entities svc text use_spacy use_huggingface confidence_threshold =
     (let entities = [(''spacy_entities'', NEntities []), (''hf_entities'', NEntities []),
                      (''merged_entities'', NEntities []), (''entity_counts'', NCounts []),
                      (''text_length'', NInt (int (length text)))]
      in case (if use_spacy \<and> spacy_nlp svc \<noteq> None
               then extract_spacy_entities svc text else Inr []) of
           Inl err \<Rightarrow> Inl err
         | Inr spacy_entities \<Rightarrow>
             (case (if use_huggingface \<and> hf_ner svc \<noteq> None
                    then extract_hf_entities svc text confidence_threshold else Inr []) of
                Inl err \<Rightarrow> Inl err
              | Inr hf_entities \<Rightarrow>
                  let entities = AList.update ''spacy_entities'' (NEntities spacy_entities) entities;
                      entities = AList.update ''hf_entities'' (NEntities hf_entities) entities;
                      merged = merge_entities spacy_entities hf_entities;
                      entities = AList.update ''merged_entities'' (NEntities merged) entities;
                      entities = AList.update ''entity_counts'' (NCounts (ner_count_entities merged)) entities
                  in Inr entities))"

text \<open>
  The call the orchestrator makes, \<open>self.ner_service.extract_entities(text)\<close>, with the
  defaults of the other parameters.
\<close>

definition ner_call :: "ner_service \<Rightarrow> string \<Rightarrow> error + ner_results" where
  "ner_call svc text = ner_extract_entities svc text True True (1 / 2)"

text \<open>
  An environment and services for the examples. The clock reads 2026-11-03 10:00:00, a
  Tuesday; dateutil reads \<open>3pm\<close> as 15:00 of that day and rejects every other text;
  \<open>fromisoformat\<close> reads the ISO text of the next day at 10:00:00 and rejects every other
  text; every address validates unchanged and every phone candidate makes the library
  raise. The services: no model loaded; a spaCy model that finds a person at the start
  of any text; a spaCy model that raises.
\<close>

definition example_env :: env where
  "example_env = \<lparr>now = \<lparr>dt_ordinal = ymd2ord 2026 11 3, dt_micro = 36000000000\<rparr>,
     dateutil_parse = (\<lambda>s. if s = ''3pm''
        then Some \<lparr>dt_ordinal = ymd2ord 2026 11 3, dt_micro = 54000000000\<rparr> else None),
     fromisoformat = (\<lambda>s. if s = ''2026-11-04T10:00:00''
        then Some \<lparr>dt_ordinal = ymd2ord 2026 11 4, dt_micro = 36000000000\<rparr> else None),
     validate_email = Some, phone_lib = (\<lambda>_. PhoneRaises)\<rparr>"

definition unloaded_service :: ner_service where
  "unloaded_service = \<lparr>spacy_nlp = None, hf_ner = None, explain = (\<lambda>_. None)\<rparr>"

definition john_service :: ner_service where
  "john_service = \<lparr>spacy_nlp = Some (\<lambda>_. Inr [\<lparr>sp_text = ''John'', sp_label = ''PERSON'',
       sp_start_char = 0, sp_end_char = 4\<rparr>]),
     hf_ner = None, explain = (\<lambda>_. Some ''People, including fictional'')\<rparr>"

definition failing_service :: ner_service where
  "failing_service = \<lparr>spacy_nlp = Some (\<lambda>_. Inl (ExternalError ''model unavailable'')),
     hf_ner = None, explain = (\<lambda>_. None)\<rparr>"


section \<open>Notions the properties are stated with\<close>

text \<open>The count a dictionary of counts holds for a type, 0 when the type is not a key.\<close>

definition count_of :: "(string \<times> nat) list \<Rightarrow> string \<Rightarrow> nat" where
  "count_of counts t = (case map_of counts t of None \<Rightarrow> 0 | Some c \<Rightarrow> c)"

text \<open>An entity the orchestrator built from a NER result carries this metadata.\<close>

definition from_ner :: "extracted_entity \<Rightarrow> bool" where
  "from_ner e \<longleftrightarrow> ee_metadata e = Some [(''source'', MStr ''ner'')]"

text \<open>The outputs of the five recognizers, in the order the orchestrator appends them.\<close>

definition pattern_entities :: "env \<Rightarrow> string \<Rightarrow> extracted_entity list" where
  "pattern_entities env text =
     extract_emails env text @ extract_phone_numbers env text @ extract_urls text @
     extract_dates env text @ extract_times text"

definition ee_span :: "extracted_entity \<Rightarrow> int \<times> int" where
  "ee_span e = (ee_start_pos e, ee_end_pos e)"

definition has_type :: "string \<Rightarrow> extracted_entity list \<Rightarrow> bool" where
  "has_type t entities \<longleftrightarrow> (\<exists>e \<in> set entities. ee_type e = t)"



text \<open>The example texts and what the service returns for them.\<close>

definition at_3pm_entities :: "extracted_entity list" where
  "at_3pm_entities =
     [\<lparr>ee_type = ''TIME'', ee_value = ''3pm'', ee_confidence = 7 / 10, ee_context = ''at 3pm'',
       ee_start_pos = 3, ee_end_pos = 6, ee_metadata = None\<rparr>,
      \<lparr>ee_type = ''TIME'', ee_value = ''at 3pm'', ee_confidence = 7 / 10, ee_context = ''at 3pm'',
       ee_start_pos = 0, ee_end_pos = 6, ee_metadata = None\<rparr>]"

definition at_3pm_result :: extraction_result where
  "at_3pm_result = \<lparr>res_entities = at_3pm_entities, res_entity_counts = Some [(''TIME'', 2)],
     res_text_length = Some 6, res_word_count = Some 2, res_calendar_events = Some []\<rparr>"

definition blank_result :: extraction_result where
  "blank_result = \<lparr>res_entities = [], res_entity_counts = None, res_text_length = None,
     res_word_count = None, res_calendar_events = Some []\<rparr>"

definition unloaded_results :: ner_results where
  "unloaded_results = [(''spacy_entities'', NEntities []), (''hf_entities'', NEntities []),
     (''merged_entities'', NEntities []), (''entity_counts'', NCounts []),
     (''text_length'', NInt 6)]"

definition john :: ner_entity where
  "john = \<lparr>ne_text = ''John'', ne_label = ''PERSON'', ne_start = 0, ne_end = 4,
     ne_confidence = None, ne_description = Some (Some ''People, including fictional''),
     ne_source = ''spacy''\<rparr>"

definition john_results :: ner_results where
  "john_results = [(''spacy_entities'', NEntities [john]), (''hf_entities'', NEntities []),
     (''merged_entities'', NEntities [john]), (''entity_counts'', NCounts [(''PERSON'', 1)]),
     (''text_length'', NInt 11)]"

definition john_at_3pm_result :: extraction_result where
  "john_at_3pm_result =
     \<lparr>res_entities =
        [\<lparr>ee_type = ''TIME'', ee_value = ''3pm'', ee_confidence = 7 / 10,
          ee_context = ''John at 3pm'', ee_start_pos = 8, ee_end_pos = 11, ee_metadata = None\<rparr>,
         \<lparr>ee_type = ''TIME'', ee_value = ''at 3pm'', ee_confidence = 7 / 10,
          ee_context = ''John at 3pm'', ee_start_pos = 5, ee_end_pos = 11, ee_metadata = None\<rparr>],
      res_entity_counts = Some [(''TIME'', 2)], res_text_length = Some 11,
      res_word_count = Some 3, res_calendar_events = Some []\<rparr>"

definition meeting_text :: string where
  "meeting_text = ''Meeting tomorrow at 3pm.''"

definition meeting_entities :: "extracted_entity list" where
  "meeting_entities =
     [\<lparr>ee_type = ''DATE'', ee_value = ''tomorrow'', ee_confidence = 8 / 10,
       ee_context = ''Meeting tomorrow at 3pm.'', ee_start_pos = 8, ee_end_pos = 16,
       ee_metadata = Some [(''parsed_date'', MStr ''2026-11-04T10:00:00'')]\<rparr>,
      \<lparr>ee_type = ''TIME'', ee_value = ''3pm'', ee_confidence = 7 / 10,
       ee_context = ''Meeting tomorrow at 3pm.'', ee_start_pos = 20, ee_end_pos = 23,
       ee_metadata = None\<rparr>,
      \<lparr>ee_type = ''TIME'', ee_value = ''at 3pm'', ee_confidence = 7 / 10,
       ee_context = ''Meeting tomorrow at 3pm.'', ee_start_pos = 17, ee_end_pos = 23,
       ee_metadata = None\<rparr>]"

definition meeting_event :: calendar_event where
  "meeting_event =
     \<lparr>ce_title = ''Meeting tomorrow at 3pm'', ce_description = ''Meeting tomorrow at 3pm'',
      ce_start_time = Some \<lparr>dt_ordinal = ymd2ord 2026 11 4, dt_micro = 54000000000\<rparr>,
      ce_end_time = None, ce_location = None, ce_attendees = [], ce_confidence = 7 / 10,
      ce_source_text = ''Meeting tomorrow at 3pm'', ce_entities = meeting_entities\<rparr>"

definition noon_text :: string where
  "noon_text = ''Our weekly planning meeting is at noon. Bye''"

definition noon_sentence :: string where
  "noon_sentence = ''Our weekly planning meeting is at noon''"

definition noon_entity :: extracted_entity where
  "noon_entity =
     \<lparr>ee_type = ''TIME'', ee_value = ''noon'', ee_confidence = 7 / 10,
      ee_context = ''weekly planning meeting is at noon. Bye'',
      ee_start_pos = 34, ee_end_pos = 38, ee_metadata = None\<rparr>"

definition call_john_text :: string where
  "call_john_text = ''I need to call John tomorrow''"

section \<open>Properties of the merger\<close>

lemma spans_overlap_sym: "spans_overlap a b \<longleftrightarrow> spans_overlap b a"
  by (auto simp: spans_overlap_def)

lemma spans_overlap_iff: "spans_overlap (a0, a1) (b0, b1) \<longleftrightarrow> a0 < b1 \<and> b0 < a1"
  by (simp add: spans_overlap_def)

lemma greedy_accept_Cons:
  "greedy_accept accepted (c # cs) =
     (if \<exists>a \<in> set accepted. spans_overlap (ne_span c) (ne_span a)
      then greedy_accept accepted cs
      else greedy_accept (accepted @ [c]) cs)"
  by (simp add: spans_overlap_def ne_span_def)

declare greedy_accept.simps(2) [simp del]

declare greedy_accept_Cons [simp]

lemma merge_loop_greedy:
  "fst (merge_loop cs (merged, ne_span ` set merged)) = greedy_accept merged cs"
proof (induction cs arbitrary: merged)
  case Nil
  then show ?case by simp
next
  case (Cons c cs)
  have grow: "insert (ne_span c) (ne_span ` set merged) = ne_span ` set (merged @ [c])"
    by simp
  show ?case
  proof (cases "\<exists>a \<in> set merged. spans_overlap (ne_span c) (ne_span a)")
    case True
    then have "merge_loop (c # cs) (merged, ne_span ` set merged) =
        merge_loop cs (merged, ne_span ` set merged)"
      by (auto simp: Let_def)
    then show ?thesis using True Cons.IH [of merged] by simp
  next
    case False
    then have "merge_loop (c # cs) (merged, ne_span ` set merged) =
        merge_loop cs (merged @ [c], ne_span ` set (merged @ [c]))"
      unfolding grow [symmetric] by (auto simp: Let_def)
    then show ?thesis using False Cons.IH [of "merged @ [c]"] by simp
  qed
qed

lemma merge_entities_greedy:
  "merge_entities a b = greedy_accept [] (sort_key ne_start (a @ b))"
  using merge_loop_greedy [of "sort_key ne_start (a @ b)" "[]"]
  by (simp add: merge_entities_def Let_def)

lemma greedy_accept_non_overlapping:
  "non_overlapping (map ne_span accepted) \<Longrightarrow>
   non_overlapping (map ne_span (greedy_accept accepted cs))"
proof (induction cs arbitrary: accepted)
  case Nil
  then show ?case by simp
next
  case (Cons c cs)
  show ?case
  proof (cases "\<exists>a \<in> set accepted. spans_overlap (ne_span c) (ne_span a)")
    case True
    then show ?thesis using Cons by simp
  next
    case False
    then have "non_overlapping (map ne_span (accepted @ [c]))"
      using Cons.prems spans_overlap_sym
      by (auto simp: non_overlapping_def sorted_wrt_append)
    then show ?thesis using False Cons.IH by simp
  qed
qed

lemma greedy_accept_sorted:
  "sorted (map ne_start (accepted @ cs)) \<Longrightarrow>
   sorted (map ne_start (greedy_accept accepted cs))"
proof (induction cs arbitrary: accepted)
  case Nil
  then show ?case by simp
next
  case (Cons c cs)
  have drop_c: "sorted (map ne_start (accepted @ cs))"
    using Cons.prems by (auto simp: sorted_append)
  have keep_c: "sorted (map ne_start ((accepted @ [c]) @ cs))"
    using Cons.prems by simp
  show ?case
    using Cons.IH [OF drop_c] Cons.IH [OF keep_c] by simp
qed

lemma merge_entities_non_overlapping:
  "non_overlapping (map ne_span (merge_entities a b))"
  unfolding merge_entities_greedy
  by (rule greedy_accept_non_overlapping) (simp add: non_overlapping_def)

lemma merge_entities_sorted: "sorted (map ne_start (merge_entities a b))"
  unfolding merge_entities_greedy
  by (rule greedy_accept_sorted) simp

lemma stable_sort_of_sort_key: "stable_sort_of xs (sort_key ne_start xs)"
  by (simp add: stable_sort_of_def sort_key_stable)

lemma stable_sort_of_unique:
  assumes "stable_sort_of xs s"
  shows "sort_key ne_start xs = s"
proof (rule properties_for_sort_key)
  show "mset s = mset xs" using assms by (simp add: stable_sort_of_def)
  show "sorted (map ne_start s)" using assms by (simp add: stable_sort_of_def)
next
  fix k assume "k \<in> set s"
  then have "k \<in> set xs" using assms mset_eq_setD unfolding stable_sort_of_def by blast
  then have "filter (\<lambda>e. ne_start e = ne_start k) s = filter (\<lambda>e. ne_start e = ne_start k) xs"
    using assms by (simp add: stable_sort_of_def)
  then show "filter (\<lambda>x. ne_start k = ne_start x) s = filter (\<lambda>x. ne_start k = ne_start x) xs"
    by (simp add: eq_commute [of "ne_start k"])
qed

lemma filter_twice: "filter P (twice xs) = twice (filter P xs)"
  by (induction xs) (simp_all add: twice_def)

lemma filter_key_distinct:
  "distinct (map f xs) \<Longrightarrow> length (filter (\<lambda>x. f x = k) xs) \<le> 1"
proof (induction xs)
  case Nil
  then show ?case by simp
next
  case (Cons a xs)
  show ?case
  proof (cases "f a = k")
    case True
    from Cons.prems have "f a \<notin> f ` set xs" by simp
    then have "\<forall>x \<in> set xs. f x \<noteq> k" unfolding True by blast
    then have "filter (\<lambda>x. f x = k) xs = []" by (simp add: filter_empty_conv)
    then show ?thesis using True by simp
  next
    case False
    then show ?thesis using Cons by simp
  qed
qed

lemma twice_short: "length ys \<le> 1 \<Longrightarrow> twice ys = ys @ ys"
  by (cases ys) (auto simp: twice_def)

lemma stable_sort_of_twice:
  assumes "sorted (map ne_start L)" and "distinct (map ne_start L)"
  shows "stable_sort_of (L @ L) (twice L)"
proof -
  have m: "mset (twice L) = mset (L @ L)"
    by (induction L) (simp_all add: twice_def)
  have s: "sorted (map ne_start (twice L))"
    using assms(1) by (induction L) (auto simp: twice_def)
  have f: "filter (\<lambda>e. ne_start e = k) (twice L) = filter (\<lambda>e. ne_start e = k) (L @ L)" for k
    using twice_short [OF filter_key_distinct [OF assms(2), of k]]
    by (simp add: filter_twice)
  show ?thesis using m s f by (simp add: stable_sort_of_def)
qed

lemma greedy_accept_twice:
  "\<forall>e \<in> set L. ne_start e < ne_end e \<Longrightarrow>
   non_overlapping (map ne_span (accepted @ L)) \<Longrightarrow>
   greedy_accept accepted (twice L) = accepted @ L"
proof (induction L arbitrary: accepted)
  case Nil
  then show ?case by (simp add: twice_def)
next
  case (Cons x L)
  have fresh: "\<not> (\<exists>a \<in> set accepted. spans_overlap (ne_span x) (ne_span a))"
    using Cons.prems(2) spans_overlap_sym
    by (auto simp: non_overlapping_def sorted_wrt_append)
  have self: "spans_overlap (ne_span x) (ne_span x)"
    using Cons.prems(1) by (simp add: spans_overlap_def ne_span_def)
  have "greedy_accept accepted (twice (x # L)) = greedy_accept (accepted @ [x]) (twice L)"
    using fresh self by (simp add: twice_def)
  also have "\<dots> = (accepted @ [x]) @ L"
    using Cons.prems by (intro Cons.IH) simp_all
  finally show ?case by simp
qed

lemma disjoint_starts_distinct:
  "\<forall>e \<in> set L. ne_start e < ne_end e \<Longrightarrow> non_overlapping (map ne_span L) \<Longrightarrow>
   distinct (map ne_start L)"
  by (induction L) (auto simp: non_overlapping_def spans_overlap_def ne_span_def)

lemma merge_self:
  assumes "sorted (map ne_start L)" and "non_overlapping (map ne_span L)"
    and "\<forall>e \<in> set L. ne_start e < ne_end e"
  shows "merge_entities L L = L"
proof -
  have "sort_key ne_start (L @ L) = twice L"
    using assms by (intro stable_sort_of_unique stable_sort_of_twice disjoint_starts_distinct)
  then show ?thesis
    using greedy_accept_twice [of L "[]"] assms by (simp add: merge_entities_greedy)
qed

lemma merge_same_start:
  assumes "ne_start x = ne_start y" and "ne_start x < ne_end y" and "ne_start y < ne_end x"
  shows "merge_entities [x, y] [] = [x]" and "merge_entities [x] [y] = [x]"
  using assms by (simp_all add: merge_entities_greedy spans_overlap_def ne_span_def)

lemma merge_disjoint:
  assumes "ne_start x < ne_start y" and "ne_end x \<le> ne_start y"
  shows "merge_entities [x] [y] = [x, y]" and "merge_entities [y] [x] = [x, y]"
  using assms by (simp_all add: merge_entities_greedy spans_overlap_def ne_span_def)

text \<open>
  C5. For every two input lists the merger's result is the greedy walk over the stably
  sorted concatenation: \<open>sort_key\<close> is a stable ascending sort of the concatenation,
  and whatever list is one, walking it and accepting a candidate iff its span overlaps no
  accepted span gives \<open>merge_entities\<close>. Two spans \<open>[a0,a1)\<close> and \<open>[b0,b1)\<close> overlap, for the
  code as for the walk, iff \<open>a0 < b1\<close> and \<open>b0 < a1\<close>. Of two overlapping entities with the
  same start the first of the input is kept, as in the example of the DATE entity [0,9)
  and the PERSON entity [0,5); an entity that starts at or after the end of an earlier
  one is kept beside it, as the ORG entity [9,13) is beside the DATE entity.
\<close>

theorem merger_contract:
  "stable_sort_of (a @ b) (sort_key ne_start (a @ b)) \<and>
   (\<forall>s. stable_sort_of (a @ b) s \<longrightarrow> merge_entities a b = greedy_accept [] s) \<and>
   (spans_overlap (a0, a1) (b0, b1) \<longleftrightarrow> a0 < b1 \<and> b0 < a1) \<and>
   (ne_start x = ne_start y \<and> ne_start x < ne_end y \<and> ne_start y < ne_end x \<longrightarrow>
      merge_entities [x, y] [] = [x] \<and> merge_entities [x] [y] = [x]) \<and>
   (ne_start x < ne_start y \<and> ne_end x \<le> ne_start y \<longrightarrow>
      merge_entities [x] [y] = [x, y] \<and> merge_entities [y] [x] = [x, y]) \<and>
   merge_entities [ex_date, ex_person] [] = [ex_date] \<and>
   merge_entities [ex_org, ex_date] [ex_person] = [ex_date, ex_org]"
proof (intro conjI allI impI)
  show "stable_sort_of (a @ b) (sort_key ne_start (a @ b))"
    by (rule stable_sort_of_sort_key)
next
  fix s assume "stable_sort_of (a @ b) s"
  then show "merge_entities a b = greedy_accept [] s"
    using stable_sort_of_unique by (simp add: merge_entities_greedy)
next
  show "spans_overlap (a0, a1) (b0, b1) \<longleftrightarrow> a0 < b1 \<and> b0 < a1"
    by (rule spans_overlap_iff)
next
  assume "ne_start x = ne_start y \<and> ne_start x < ne_end y \<and> ne_start y < ne_end x"
  then show "merge_entities [x, y] [] = [x]" "merge_entities [x] [y] = [x]"
    using merge_same_start by blast+
next
  assume "ne_start x < ne_start y \<and> ne_end x \<le> ne_start y"
  then show "merge_entities [x] [y] = [x, y]" "merge_entities [y] [x] = [x, y]"
    using merge_disjoint by blast+
next
  show "merge_entities [ex_date, ex_person] [] = [ex_date]"
    by (rule merge_same_start) (simp_all add: ex_date_def ex_person_def)
next
  show "merge_entities [ex_org, ex_date] [ex_person] = [ex_date, ex_org]"
    by (simp add: merge_entities_greedy spans_overlap_def ne_span_def ex_date_def
        ex_person_def ex_org_def)
qed

theorem merger_contract_witness:
  "stable_sort_of ([ex_person] @ [ex_date]) [ex_person, ex_date] \<and>
   merge_entities [ex_person] [ex_date] = greedy_accept [] [ex_person, ex_date] \<and>
   greedy_accept [] [ex_person, ex_date] = [ex_person] \<and>
   ne_start ex_date = ne_start ex_person \<and>
   ne_start ex_date < ne_end ex_person \<and> ne_start ex_person < ne_end ex_date \<and>
   spans_overlap (0, 9) (0, 5) \<and>
   merge_entities [ex_date] [ex_person] = [ex_date] \<and>
   ne_start ex_date < ne_start ex_org \<and> ne_end ex_date \<le> ne_start ex_org \<and>
   \<not> spans_overlap (0, 9) (9, 13) \<and>
   merge_entities [ex_org] [ex_date] = [ex_date, ex_org]"
proof -
  have s: "stable_sort_of ([ex_person] @ [ex_date]) [ex_person, ex_date]"
    by (simp add: stable_sort_of_def ex_date_def ex_person_def)
  have o: "ne_start ex_date = ne_start ex_person \<and>
      ne_start ex_date < ne_end ex_person \<and> ne_start ex_person < ne_end ex_date"
    by (simp add: ex_date_def ex_person_def)
  have g: "greedy_accept [] [ex_person, ex_date] = [ex_person]"
    by (simp add: ex_date_def ex_person_def spans_overlap_def ne_span_def)
  have d: "ne_start ex_date < ne_start ex_org \<and> ne_end ex_date \<le> ne_start ex_org"
    by (simp add: ex_date_def ex_org_def)
  have t1: "merge_entities [ex_person] [ex_date] = greedy_accept [] [ex_person, ex_date] \<and>
      merge_entities [ex_date] [ex_person] = [ex_date]"
    using merger_contract [of "[ex_person]" "[ex_date]" 0 9 0 5 ex_date ex_person] s o by blast
  have t2: "spans_overlap (0, 9) (0, 5) \<and> \<not> spans_overlap (0, 9) (9, 13) \<and>
      merge_entities [ex_org] [ex_date] = [ex_date, ex_org]"
    using merger_contract [of "[]" "[]" 0 9 0 5 ex_date ex_org]
      merger_contract [of "[]" "[]" 0 9 9 13 ex_date ex_org] d by simp
  show ?thesis using s o g d t1 t2 by blast
qed

text \<open>
  C7. The merger is idempotent on its own output: a merged list whose spans are all
  non-empty, merged with itself, is returned unchanged.
\<close>

theorem merger_idempotent:
  assumes "L = merge_entities A B" and "\<forall>e \<in> set L. ne_start e < ne_end e"
  shows "merge_entities L L = L"
  using assms merge_entities_sorted [of A B] merge_entities_non_overlapping [of A B]
  by (intro merge_self) simp_all

theorem merger_idempotent_witness:
  "[ex_date] = merge_entities [ex_date, ex_person] [] \<and>
   ne_start ex_date < ne_end ex_date \<and>
   merge_entities [ex_date] [ex_date] = [ex_date]"
proof -
  have m: "[ex_date] = merge_entities [ex_date, ex_person] []"
    by (rule sym, rule merge_same_start) (simp_all add: ex_date_def ex_person_def)
  have n: "\<forall>e \<in> set [ex_date]. ne_start e < ne_end e"
    by (simp add: ex_date_def)
  have p: "ne_start ex_date < ne_end ex_date"
    by (simp add: ex_date_def)
  show ?thesis using merger_idempotent [OF m n] m p by simp
qed



section \<open>Properties of the orchestrator\<close>


lemma py_in_sublist: "py_in sub s \<longleftrightarrow> sublist sub s"
  by (induction s) (auto simp: sublist_Cons_right)

lemma count_step_lookup:
  "map_of (count_step counts t) k = (if k = t then Some (count_of counts t + 1) else map_of counts k)"
  by (simp add: count_step_def count_of_def update_conv')

lemma count_step_keys: "fst ` set (count_step counts t) = insert t (fst ` set counts)"
  by (simp add: count_step_def dom_update)

lemma count_step_distinct: "distinct (map fst counts) \<Longrightarrow> distinct (map fst (count_step counts t))"
  by (simp add: count_step_def distinct_update)

lemma update_sum:
  "sum_list (map snd (AList.update k (count_of ps k + 1) ps)) = sum_list (map snd ps) + 1"
  by (induction ps) (auto simp: count_of_def)

lemma count_step_sum: "sum_list (map snd (count_step counts t)) = sum_list (map snd counts) + 1"
  using update_sum [of t counts] by (simp add: count_step_def count_of_def)

lemma count_fold_lookup:
  "map_of (foldl count_step counts ts) k =
     (if k \<in> set ts \<or> k \<in> fst ` set counts
      then Some (count_of counts k + length (filter (\<lambda>t. t = k) ts)) else None)"
proof (induction ts arbitrary: counts)
  case Nil
  show ?case
  proof (cases "map_of counts k")
    case None
    then show ?thesis by (simp add: map_of_eq_None_iff)
  next
    case (Some c)
    then have "k \<in> fst ` set counts" by (metis map_of_eq_None_iff option.distinct(1))
    then show ?thesis using Some by (simp add: count_of_def)
  qed
next
  case (Cons t ts)
  have "map_of (foldl count_step (count_step counts t) ts) k =
     (if k \<in> set ts \<or> k \<in> insert t (fst ` set counts)
      then Some (count_of (count_step counts t) k + length (filter (\<lambda>t. t = k) ts)) else None)"
    unfolding Cons.IH count_step_keys ..
  moreover have "count_of (count_step counts t) k =
      (if k = t then count_of counts t + 1 else count_of counts k)"
    by (simp add: count_of_def count_step_lookup)
  ultimately show ?case by auto
qed

lemma count_fold_keys:
  "fst ` set (foldl count_step counts ts) = fst ` set counts \<union> set ts"
  by (induction ts arbitrary: counts) (simp_all add: count_step_keys)

lemma count_fold_distinct:
  "distinct (map fst counts) \<Longrightarrow> distinct (map fst (foldl count_step counts ts))"
  by (induction ts arbitrary: counts) (simp_all add: count_step_distinct)

lemma count_fold_sum:
  "sum_list (map snd (foldl count_step counts ts)) = sum_list (map snd counts) + length ts"
  by (induction ts arbitrary: counts) (simp_all add: count_step_sum)

lemma count_entities_fold: "count_entities es = foldl count_step [] (map ee_type es)"
  by (simp add: count_entities_def foldl_map)

lemma extract_entities_counts:
  "extract_entities env ner text ic = Inr r \<Longrightarrow> strip text \<noteq> [] \<Longrightarrow>
   res_entity_counts r = Some (count_entities (res_entities r))"
  by (auto simp: extract_entities_def Let_def split: sum.splits)

lemma extract_entities_blank_result:
  "strip text = [] \<Longrightarrow> extract_entities env ner text ic = Inr r \<Longrightarrow>
   res_entity_counts r = None \<and> res_entities r = []"
  by (auto simp: extract_entities_def)

text \<open>
  C10, as the code has it. For text that is not blank (not empty after \<open>strip\<close>) the
  result's \<open>entity_counts\<close> gives every type the number of entities of that type in the
  returned list; its keys are the types that occur there, each once, and its values add
  up to the length of the list. For blank text, also when it is not empty, the result
  has no \<open>entity_counts\<close> and its entity list is empty.
\<close>

theorem entity_counts_exact:
  assumes "extract_entities env ner text include_calendar = Inr r"
  shows "(strip text = [] \<longrightarrow> res_entity_counts r = None \<and> res_entities r = []) \<and>
    (strip text \<noteq> [] \<longrightarrow>
      (\<exists>counts. res_entity_counts r = Some counts \<and> counts = count_entities (res_entities r) \<and>
           (\<forall>t. map_of counts t =
                  (if t \<in> ee_type ` set (res_entities r)
                   then Some (length (filter (\<lambda>e. ee_type e = t) (res_entities r))) else None)) \<and>
           distinct (map fst counts) \<and>
           set (map fst counts) = ee_type ` set (res_entities r) \<and>
           sum_list (map snd counts) = length (res_entities r)))"
proof (rule conjI; rule impI)
  assume "strip text = []"
  then show "res_entity_counts r = None \<and> res_entities r = []"
    using assms by (rule extract_entities_blank_result)
next
  assume nonblank: "strip text \<noteq> []"
  let ?es = "res_entities r"
  let ?c = "count_entities ?es"
  have c: "res_entity_counts r = Some ?c"
    using assms nonblank by (rule extract_entities_counts)
  have l: "map_of ?c t =
      (if t \<in> ee_type ` set ?es then Some (length (filter (\<lambda>e. ee_type e = t) ?es)) else None)" for t
    unfolding count_entities_fold count_fold_lookup
    by (simp add: count_of_def filter_map comp_def)
  have d: "distinct (map fst ?c)"
    unfolding count_entities_fold by (rule count_fold_distinct) simp
  have k: "set (map fst ?c) = ee_type ` set ?es"
    using count_fold_keys [of "[]" "map ee_type ?es"] by (simp add: count_entities_fold)
  have s: "sum_list (map snd ?c) = length ?es"
    unfolding count_entities_fold count_fold_sum by simp
  show "\<exists>counts. res_entity_counts r = Some counts \<and> counts = count_entities (res_entities r) \<and>
           (\<forall>t. map_of counts t =
                  (if t \<in> ee_type ` set (res_entities r)
                   then Some (length (filter (\<lambda>e. ee_type e = t) (res_entities r))) else None)) \<and>
           distinct (map fst counts) \<and>
           set (map fst counts) = ee_type ` set (res_entities r) \<and>
           sum_list (map snd counts) = length (res_entities r)"
    using c l d k s by blast
qed

text \<open>
  C9. When the NER call raises on a non-blank text, \<open>extract_entities\<close> ends in that same
  exception: the call comes before any recognizer, and no result, so no entity list,
  partial or not, is returned.
\<close>

theorem ner_failure_propagates:
  "strip text \<noteq> [] \<Longrightarrow> ner text = Inl err \<Longrightarrow>
   extract_entities env ner text include_calendar = Inl err"
  by (simp add: extract_entities_def)

lemma ner_call_keys:
  assumes "ner_call svc text = Inr d"
  shows "map_of d ''entities'' = None"
  using assms
  by (auto simp: ner_call_def ner_extract_entities_def Let_def update_conv' split: sum.splits if_splits)

lemma ner_call_no_entities:
  "ner_call svc text = Inr d \<Longrightarrow> process_ner_results text d = Inr []"
  by (simp add: process_ner_results_def get_entities_def ner_call_keys)

lemma emails_not_from_ner: "e \<in> set (extract_emails env text) \<Longrightarrow> \<not> from_ner e"
  by (auto simp: extract_emails_def from_ner_def Let_def split: option.splits)

lemma phones_not_from_ner: "e \<in> set (extract_phone_numbers env text) \<Longrightarrow> \<not> from_ner e"
proof -
  assume "e \<in> set (extract_phone_numbers env text)"
  then obtain pattern m where "m \<in> set (finditer False pattern text)"
    and e: "e \<in> set (case m of (s, e, g) \<Rightarrow>
            let phone = group0 text m
            in case phone_lib env phone of
                 PhoneValid formatted \<Rightarrow>
                   [\<lparr>ee_type = ''PHONE'', ee_value = formatted, ee_confidence = 9 / 10,
                     ee_context = context_window text 30 (int s) (int e),
                     ee_start_pos = int s, ee_end_pos = int e,
                     ee_metadata = Some [(''validated'', MBool True), (''original'', MStr phone)]\<rparr>]
               | PhoneInvalid \<Rightarrow> []
               | PhoneRaises \<Rightarrow>
                   [\<lparr>ee_type = ''PHONE'', ee_value = phone, ee_confidence = 6 / 10,
                     ee_context = context_window text 30 (int s) (int e),
                     ee_start_pos = int s, ee_end_pos = int e,
                     ee_metadata = Some [(''validated'', MBool False)]\<rparr>])"
    unfolding extract_phone_numbers_def by auto
  then show ?thesis
    by (cases m; cases "phone_lib env (group0 text m)") (auto simp: from_ner_def Let_def)
qed

lemma urls_not_from_ner: "e \<in> set (extract_urls text) \<Longrightarrow> \<not> from_ner e"
  by (auto simp: extract_urls_def from_ner_def)

lemma dates_not_from_ner: "e \<in> set (extract_dates env text) \<Longrightarrow> \<not> from_ner e"
  by (auto simp: extract_dates_def from_ner_def Let_def split: option.splits)

lemma times_not_from_ner: "e \<in> set (extract_times text) \<Longrightarrow> \<not> from_ner e"
  by (auto simp: extract_times_def from_ner_def)

lemma pattern_entities_not_from_ner: "e \<in> set (pattern_entities env text) \<Longrightarrow> \<not> from_ner e"
  using emails_not_from_ner phones_not_from_ner urls_not_from_ner dates_not_from_ner
    times_not_from_ner
  by (auto simp: pattern_entities_def)

lemma extract_entities_shape:
  assumes "strip text \<noteq> []" and "ner text = Inr d" and "process_ner_results text d = Inr ner_es"
  shows "\<exists>r. extract_entities env ner text ic = Inr r \<and>
             res_entities r = ner_es @ pattern_entities env text"
  using assms by (simp add: extract_entities_def pattern_entities_def Let_def)

lemma extract_entities_blank:
  "strip text = [] \<Longrightarrow> extract_entities env ner text ic = Inr r \<Longrightarrow> res_entities r = []"
  by (auto simp: extract_entities_def)

text \<open>
  C2. The dictionary of \<open>NERService.extract_entities\<close> has no key \<open>entities\<close>, so the
  orchestrator's lookup with default gives the empty list; composed with that service,
  the orchestrator returns the recognizers' entities only, none of them marked as coming
  from the NER.
\<close>

theorem ner_entities_never_used:
  "(ner_call svc text = Inr d \<longrightarrow> map_of d ''entities'' = None \<and> get_entities d = NEntities []) \<and>
   (extract_entities env (ner_call svc) text include_calendar = Inr r \<longrightarrow>
      (strip text \<noteq> [] \<longrightarrow> res_entities r = pattern_entities env text) \<and>
      set (res_entities r) \<subseteq> set (pattern_entities env text) \<and>
      (\<forall>e \<in> set (res_entities r). \<not> from_ner e))"
proof (intro conjI impI)
  assume d: "ner_call svc text = Inr d"
  show "map_of d ''entities'' = None" using d by (rule ner_call_keys)
  then show "get_entities d = NEntities []" by (simp add: get_entities_def)
next
  assume r: "extract_entities env (ner_call svc) text include_calendar = Inr r"
  have shape: "res_entities r = pattern_entities env text" if "strip text \<noteq> []"
  proof -
    from r that obtain d where d: "ner_call svc text = Inr d"
      by (auto simp: extract_entities_def split: sum.splits)
    from extract_entities_shape [where ner = "ner_call svc", OF that d ner_call_no_entities [OF d],
        of env include_calendar] r
    show ?thesis by simp
  qed
  then show "strip text \<noteq> [] \<Longrightarrow> res_entities r = pattern_entities env text" .
  show sub: "set (res_entities r) \<subseteq> set (pattern_entities env text)"
    using shape extract_entities_blank [OF _ r] by (cases "strip text = []") simp_all
  show "\<forall>e \<in> set (res_entities r). \<not> from_ner e"
    using sub pattern_entities_not_from_ner by blast
qed



section \<open>Properties of the calendar event synthesizer\<close>




lemma dropWhile_fixed: "xs = [] \<or> \<not> P (hd xs) \<Longrightarrow> dropWhile P xs = xs"
  by (cases xs) auto

lemma dropWhile_head: "dropWhile P xs = [] \<or> \<not> P (hd (dropWhile P xs))"
  using hd_dropWhile by blast

lemma strip_head: "strip s = [] \<or> \<not> is_space (hd (strip s))"
proof -
  let ?u = "dropWhile is_space s"
  have u: "?u = strip s @ rev (takeWhile is_space (rev ?u))"
    unfolding strip_def by (metis rev_append rev_rev_ident takeWhile_dropWhile_id)
  show ?thesis
  proof (cases "strip s")
    case Nil
    then show ?thesis by simp
  next
    case (Cons c cs)
    then have "hd ?u = c" using u by (metis append_Cons list.sel(1))
    moreover have "?u \<noteq> []" using u Cons by (metis Nil_is_append_conv list.distinct(1))
    ultimately have "\<not> is_space c" using dropWhile_head [of is_space s] by auto
    then show ?thesis using Cons by simp
  qed
qed

lemma strip_last: "rev (strip s) = [] \<or> \<not> is_space (hd (rev (strip s)))"
  unfolding strip_def rev_rev_ident by (rule dropWhile_head)

lemma strip_strip: "strip (strip s) = strip s"
proof -
  have a: "dropWhile is_space (strip s) = strip s"
    using strip_head by (rule dropWhile_fixed)
  have b: "dropWhile is_space (rev (strip s)) = rev (strip s)"
    using strip_last by (rule dropWhile_fixed)
  show ?thesis
    unfolding strip_def [of "strip s"] a b by simp
qed

lemma sentences_stripped: "s \<in> set (sentences text) \<Longrightarrow> s \<noteq> [] \<and> strip s = s"
  by (auto simp: sentences_def strip_strip)

lemma event_keywords_lower: "\<forall>k \<in> set event_keywords. lower k = k"
  by code_simp

lemma has_event_keyword_sublist:
  "has_event_keyword sentence \<longleftrightarrow> (\<exists>k \<in> set event_keywords. sublist (lower k) (lower sentence))"
  using event_keywords_lower by (simp add: has_event_keyword_def list_ex_iff py_in_sublist)

lemma filter_type_empty: "filter (\<lambda>e. ee_type e = t) es \<noteq> [] \<longleftrightarrow> has_type t es"
  by (auto simp: has_type_def filter_empty_conv)

lemma sentence_event_emits:
  "sentence_event env entities sentence \<noteq> None \<longleftrightarrow>
     has_event_keyword sentence \<and>
     (has_type ''DATE'' (sentence_entities entities sentence) \<or>
      has_type ''TIME'' (sentence_entities entities sentence))"
  unfolding filter_type_empty [symmetric] by (simp add: sentence_event_def Let_def)

lemma sentence_event_confidence:
  assumes "sentence_event env entities sentence = Some ev"
  shows "ce_confidence ev =
     (if has_type ''DATE'' (sentence_entities entities sentence) \<and>
         has_type ''TIME'' (sentence_entities entities sentence) then 7 / 10 else 5 / 10)"
    and "ce_source_text ev = sentence"
    and "ce_entities ev = sentence_entities entities sentence"
  using assms unfolding filter_type_empty [symmetric]
  by (auto simp: sentence_event_def Let_def split: if_splits)

lemma events_per_sentence:
  "length (extract_calendar_events env text entities) \<le> length (sentences text)"
  by (simp add: extract_calendar_events_def map_filter_def)

text \<open>
  C4. For a sentence of the loop (stripped and non-empty, as every element of
  \<open>sentences\<close> is) an event is emitted iff the lowered sentence contains one of the event
  keywords and its sentence entities include a DATE or a TIME entity; the confidence of
  the event is 0.7 when both a DATE and a TIME entity are among them and 0.5 otherwise;
  a sentence gives at most one event.
\<close>

theorem calendar_event_emission:
  "(sentence_event env entities sentence \<noteq> None \<longleftrightarrow>
      has_event_keyword sentence \<and>
      (has_type ''DATE'' (sentence_entities entities sentence) \<or>
       has_type ''TIME'' (sentence_entities entities sentence))) \<and>
   (\<forall>ev. sentence_event env entities sentence = Some ev \<longrightarrow>
      ce_source_text ev = sentence \<and>
      ce_confidence ev =
        (if has_type ''DATE'' (sentence_entities entities sentence) \<and>
            has_type ''TIME'' (sentence_entities entities sentence) then 7 / 10 else 5 / 10)) \<and>
   (has_event_keyword sentence \<longleftrightarrow>
      (\<exists>k \<in> set event_keywords. sublist (lower k) (lower sentence))) \<and>
   extract_calendar_events env text entities =
     List.map_filter (sentence_event env entities) (sentences text) \<and>
   (\<forall>s \<in> set (sentences text). s \<noteq> [] \<and> strip s = s) \<and>
   length (extract_calendar_events env text entities) \<le> length (sentences text)"
  using sentence_event_emits [of env entities sentence]
    sentence_event_confidence [of env entities sentence]
    has_event_keyword_sublist [of sentence] events_per_sentence [of env "text" entities]
    sentences_stripped [of _ "text"]
  by (simp add: extract_calendar_events_def)

text \<open>
  C3, as the code has it. The entities selected for a sentence are exactly those whose
  context contains the sentence or whose context is contained in the sentence (the value
  of the entity plays no part); they are the \<open>entities\<close> of the event emitted.
\<close>

theorem sentence_entities_by_context:
  "sentence_entities entities sentence =
     filter (\<lambda>e. sublist (ee_context e) sentence \<or> sublist sentence (ee_context e)) entities \<and>
   (\<forall>ev. sentence_event env entities sentence = Some ev \<longrightarrow>
      ce_entities ev = sentence_entities entities sentence)"
  using sentence_event_confidence(3) [of env entities sentence]
  by (simp add: sentence_entities_def py_in_sublist)



section \<open>Properties of the relative dates\<close>




















section \<open>The examples, evaluated\<close>

lemma strip_at_3pm: "strip ''at 3pm'' \<noteq> []"
  by code_simp

lemma extract_blank:
  "strip '' '' = [] \<and>
   extract_entities example_env (ner_call unloaded_service) '' '' True = Inr blank_result"
  by code_simp

lemma latin1_classes:
  "strip [CHR 0xA0, CHR 0x85] = [] \<and> is_word (CHR 0xE9) \<and> \<not> is_word (CHR 0xD7) \<and>
   lower [CHR 0xC9, CHR ''A'', CHR 0xD7] = [CHR 0xE9, CHR ''a'', CHR 0xD7] \<and>
   extract_times ([CHR 0xE9] @ ''noon'') = []"
  by code_simp

lemma extract_at_3pm:
  "extract_entities example_env (ner_call unloaded_service) ''at 3pm'' True = Inr at_3pm_result"
  by code_simp

lemma ner_at_3pm:
  "ner_call unloaded_service ''at 3pm'' = Inr unloaded_results \<and>
   process_ner_results ''at 3pm'' unloaded_results = Inr []"
  by code_simp

lemma patterns_at_3pm: "pattern_entities example_env ''at 3pm'' = at_3pm_entities"
  by code_simp

lemma at_3pm_spans:
  "map ee_span at_3pm_entities = [(3, 6), (0, 6)] \<and>
   map ee_start_pos at_3pm_entities = [3, 0] \<and>
   \<not> non_overlapping (map ee_span at_3pm_entities) \<and>
   \<not> sorted (map ee_start_pos at_3pm_entities)"
  by (simp add: at_3pm_entities_def ee_span_def non_overlapping_def spans_overlap_def)

lemma john_at_3pm:
  "ner_call john_service ''John at 3pm'' = Inr john_results \<and>
   extract_entities example_env (ner_call john_service) ''John at 3pm'' True =
     Inr john_at_3pm_result \<and>
   strip ''John at 3pm'' \<noteq> []"
  by code_simp

lemma failing_at_3pm:
  "ner_call failing_service ''at 3pm'' = Inl (ExternalError ''model unavailable'')"
  by code_simp

lemma meeting_example:
  "pattern_entities example_env meeting_text = meeting_entities \<and>
   sentences meeting_text = [''Meeting tomorrow at 3pm''] \<and>
   sentence_event example_env meeting_entities ''Meeting tomorrow at 3pm'' = Some meeting_event \<and>
   has_event_keyword ''Meeting tomorrow at 3pm'' \<and>
   has_type ''DATE'' (sentence_entities meeting_entities ''Meeting tomorrow at 3pm'') \<and>
   has_type ''TIME'' (sentence_entities meeting_entities ''Meeting tomorrow at 3pm'')"
  by code_simp

lemma noon_example:
  "extract_times noon_text = [noon_entity] \<and>
   sentences noon_text = [noon_sentence, ''Bye''] \<and>
   py_in (ee_value noon_entity) noon_sentence \<and>
   \<not> py_in (ee_context noon_entity) noon_sentence \<and>
   \<not> py_in noon_sentence (ee_context noon_entity)"
  by code_simp

lemma action_matches:
  "map (\<lambda>pattern. finditer True pattern call_john_text) action_patterns =
     [[(2, 28, Some (10, 28))], [], [(10, 28, Some (15, 28))], [], []]"
  by code_simp

lemma action_groups:
  "strip (group1 call_john_text (2, 28, Some (10, 28))) = ''call John tomorrow'' \<and>
   group0 call_john_text (2, 28, Some (10, 28)) = ''need to call John tomorrow'' \<and>
   strip (group1 call_john_text (10, 28, Some (15, 28))) = ''John tomorrow'' \<and>
   group0 call_john_text (10, 28, Some (15, 28)) = ''call John tomorrow''"
  by code_simp


section \<open>The claims settled on the examples\<close>

theorem entity_counts_exact_witness:
  "extract_entities example_env (ner_call unloaded_service) ''at 3pm'' True = Inr at_3pm_result \<and>
   strip ''at 3pm'' \<noteq> [] \<and>
   (\<exists>counts. res_entity_counts at_3pm_result = Some counts \<and>
      map_of counts ''TIME'' = Some 2 \<and> map_of counts ''DATE'' = None \<and>
      sum_list (map snd counts) = length (res_entities at_3pm_result)) \<and>
   strip '' '' = [] \<and>
   extract_entities example_env (ner_call unloaded_service) '' '' True = Inr blank_result \<and>
   res_entity_counts blank_result = None"
proof -
  from entity_counts_exact [OF extract_at_3pm] strip_at_3pm
  obtain counts where c: "res_entity_counts at_3pm_result = Some counts"
    and l: "\<And>t. map_of counts t =
        (if t \<in> ee_type ` set (res_entities at_3pm_result)
         then Some (length (filter (\<lambda>e. ee_type e = t) (res_entities at_3pm_result))) else None)"
    and s: "sum_list (map snd counts) = length (res_entities at_3pm_result)"
    by blast
  have "map_of counts ''TIME'' = Some 2" "map_of counts ''DATE'' = None"
    unfolding l by (simp_all add: at_3pm_result_def at_3pm_entities_def)
  moreover have "res_entity_counts blank_result = None"
    using entity_counts_exact [of example_env "ner_call unloaded_service" "'' ''" True
        blank_result] extract_blank by simp
  ultimately show ?thesis using c s extract_at_3pm strip_at_3pm extract_blank by blast
qed

text \<open>
  The text of one space is not empty, yet blank: the orchestrator returns at once, and
  the result has no \<open>entity_counts\<close> for the claim to speak of.
\<close>

theorem entity_counts_blank_counterexample:
  "'' '' \<noteq> [] \<and>
   extract_entities example_env (ner_call unloaded_service) '' '' True = Inr blank_result \<and>
   res_entity_counts blank_result = None"
  using extract_blank by (simp add: blank_result_def)

theorem ner_failure_propagates_witness:
  "strip ''at 3pm'' \<noteq> [] \<and>
   ner_call failing_service ''at 3pm'' = Inl (ExternalError ''model unavailable'') \<and>
   extract_entities example_env (ner_call failing_service) ''at 3pm'' True =
     Inl (ExternalError ''model unavailable'')"
  using ner_failure_propagates [of "''at 3pm''" "ner_call failing_service"
      "ExternalError ''model unavailable''" example_env True] strip_at_3pm failing_at_3pm
  by simp

theorem ner_entities_never_used_witness:
  "ner_call john_service ''John at 3pm'' = Inr john_results \<and>
   map_of john_results ''merged_entities'' = Some (NEntities [john]) \<and>
   map_of john_results ''entities'' = None \<and>
   extract_entities example_env (ner_call john_service) ''John at 3pm'' True =
     Inr john_at_3pm_result \<and>
   strip ''John at 3pm'' \<noteq> [] \<and>
   res_entities john_at_3pm_result = pattern_entities example_env ''John at 3pm''"
proof -
  have m: "map_of john_results ''merged_entities'' = Some (NEntities [john])"
    by (simp add: john_results_def)
  show ?thesis
    using ner_entities_never_used [of john_service "''John at 3pm''" john_results example_env
        True john_at_3pm_result] john_at_3pm m
    by simp
qed

text \<open>
  C1, as the code has it. For non-blank text the orchestrator returns the entities of the
  NER result's \<open>entities\<close> key followed by the outputs of the email, phone, URL, date and
  time recognizers, in this order, unmerged and unsorted. It is the merger of
  \<open>NERService\<close>, which the orchestrator does not call, whose output has no two
  overlapping spans and ascending start positions.
\<close>

theorem orchestrator_concatenates:
  "(strip text \<noteq> [] \<and> ner text = Inr d \<and> process_ner_results text d = Inr ner_es \<longrightarrow>
      (\<exists>r. extract_entities env ner text include_calendar = Inr r \<and>
            res_entities r = ner_es @ pattern_entities env text)) \<and>
   non_overlapping (map ne_span (merge_entities a b)) \<and>
   sorted (map ne_start (merge_entities a b))"
  using extract_entities_shape [of "text" ner d ner_es env include_calendar]
    merge_entities_non_overlapping [of a b] merge_entities_sorted [of a b]
  by blast

theorem orchestrator_concatenates_witness:
  "strip ''at 3pm'' \<noteq> [] \<and>
   ner_call unloaded_service ''at 3pm'' = Inr unloaded_results \<and>
   process_ner_results ''at 3pm'' unloaded_results = Inr [] \<and>
   (\<exists>r. extract_entities example_env (ner_call unloaded_service) ''at 3pm'' True = Inr r \<and>
         res_entities r = [] @ pattern_entities example_env ''at 3pm'') \<and>
   non_overlapping (map ne_span (merge_entities [ex_date] [ex_person]))"
  using orchestrator_concatenates [of "''at 3pm''" "ner_call unloaded_service" unloaded_results
      "[]" example_env True "[ex_date]" "[ex_person]"] strip_at_3pm ner_at_3pm
  by blast

text \<open>
  The text \<open>at 3pm\<close> gives two TIME entities, [3,6) from the pattern of an hour with am
  or pm and then [0,6) from the pattern that starts with \<open>at\<close>: they overlap and their
  start positions descend.
\<close>

theorem orchestrator_overlap_counterexample:
  "extract_entities example_env (ner_call unloaded_service) ''at 3pm'' True = Inr at_3pm_result \<and>
   map ee_span (res_entities at_3pm_result) = [(3, 6), (0, 6)] \<and>
   \<not> non_overlapping (map ee_span (res_entities at_3pm_result)) \<and>
   \<not> sorted (map ee_start_pos (res_entities at_3pm_result))"
proof -
  have r: "res_entities at_3pm_result = at_3pm_entities"
    by (simp add: at_3pm_result_def)
  show ?thesis
    unfolding r using extract_at_3pm at_3pm_spans by blast
qed

theorem calendar_event_emission_witness:
  "sentences meeting_text = [''Meeting tomorrow at 3pm''] \<and>
   has_event_keyword ''Meeting tomorrow at 3pm'' \<and>
   has_type ''DATE'' (sentence_entities meeting_entities ''Meeting tomorrow at 3pm'') \<and>
   has_type ''TIME'' (sentence_entities meeting_entities ''Meeting tomorrow at 3pm'') \<and>
   sentence_event example_env meeting_entities ''Meeting tomorrow at 3pm'' = Some meeting_event \<and>
   ce_confidence meeting_event = 7 / 10 \<and>
   length (extract_calendar_events example_env meeting_text meeting_entities) \<le> 1"
proof -
  note t = calendar_event_emission [of example_env meeting_entities "''Meeting tomorrow at 3pm''"
      meeting_text]
  have "ce_confidence meeting_event = 7 / 10"
    using t meeting_example by auto
  moreover have "length (extract_calendar_events example_env meeting_text meeting_entities) \<le> 1"
    using t meeting_example by simp
  ultimately show ?thesis using meeting_example by blast
qed

theorem sentence_entities_by_context_witness:
  "sentence_event example_env meeting_entities ''Meeting tomorrow at 3pm'' = Some meeting_event \<and>
   ce_entities meeting_event =
     sentence_entities meeting_entities ''Meeting tomorrow at 3pm'' \<and>
   sentence_entities [noon_entity] noon_sentence = []"
proof -
  have "sentence_entities [noon_entity] noon_sentence = []"
    using sentence_entities_by_context [of "[noon_entity]" noon_sentence] noon_example
    by (simp add: py_in_sublist)
  then show ?thesis
    using sentence_entities_by_context [of meeting_entities "''Meeting tomorrow at 3pm''"
        example_env] meeting_example
    by blast
qed

text \<open>
  In \<open>Our weekly planning meeting is at noon. Bye\<close> the value \<open>noon\<close> of the TIME entity
  appears within the first sentence, yet the entity is not selected for it: its context
  reaches 30 characters back, short of the start of the sentence, and on past the full
  stop, so neither contains the other.
\<close>

theorem sentence_entities_value_counterexample:
  "extract_times noon_text = [noon_entity] \<and>
   sentences noon_text = [noon_sentence, ''Bye''] \<and>
   py_in (ee_value noon_entity) noon_sentence \<and>
   sentence_entities [noon_entity] noon_sentence = []"
  using noon_example by (simp add: sentence_entities_def)

text \<open>
  C8, as the code has it. For \<open>I need to call John tomorrow\<close> two action items are
  returned, whatever the clock: the frame \<open>need to\<close> gives the text \<open>call John tomorrow\<close>
  and the frame \<open>call\<close>, tried later on the same text, gives \<open>John tomorrow\<close>; both have
  the type \<open>action_item\<close> and the confidence 0.8.
\<close>

theorem action_items_call_john:
  "extract_action_items env call_john_text =
     [\<lparr>ai_text = ''call John tomorrow'', ai_full_context = ''need to call John tomorrow'',
       ai_confidence = 8 / 10, ai_type = ''action_item'', ai_extracted_at = isoformat (now env)\<rparr>,
      \<lparr>ai_text = ''John tomorrow'', ai_full_context = ''call John tomorrow'',
       ai_confidence = 8 / 10, ai_type = ''action_item'', ai_extracted_at = isoformat (now env)\<rparr>]"
proof -
  define item where "item = (\<lambda>m.
      let action_text = strip (group1 call_john_text m)
      in if action_text \<noteq> []
         then [\<lparr>ai_text = action_text, ai_full_context = group0 call_john_text m,
                ai_confidence = 8 / 10, ai_type = ''action_item'',
                ai_extracted_at = isoformat (now env)\<rparr>]
         else [])"
  have "extract_action_items env call_john_text =
      concat (map (\<lambda>ms. concat (map item ms))
        (map (\<lambda>pattern. finditer True pattern call_john_text) action_patterns))"
    by (simp add: extract_action_items_def item_def comp_def)
  also have "\<dots> = item (2, 28, Some (10, 28)) @ item (10, 28, Some (15, 28))"
    unfolding action_matches by simp
  finally show ?thesis
    using action_groups by (simp add: item_def Let_def)
qed

text \<open>The text of the claim gives two action items, not one.\<close>

theorem action_items_count_counterexample:
  "map ai_text (extract_action_items example_env ''I need to call John tomorrow'') =
     [''call John tomorrow'', ''John tomorrow''] \<and>
   length (extract_action_items example_env ''I need to call John tomorrow'') \<noteq> 1"
  by code_simp

end
